theory Spec2Isabelle
  imports Main
begin

section \<open>Data model\<close>

text \<open>
  The classes of \<^verbatim>\<open>pipeline_runner.models\<close> and the settings object of
  \<^verbatim>\<open>pipeline_runner.config\<close> are used by the engine through their attributes only.
  Each becomes a record holding the attributes that \<^verbatim>\<open>__init__.py\<close> and
  \<^verbatim>\<open>cache.py\<close> read. Attribute names carry the class as a prefix where two classes
  share an attribute name.
\<close>

type_synonym bytes = string

text \<open>
  Run identifiers are the strings \<^verbatim>\<open>str(uuid.uuid4())\<close>; the model draws them from a
  counter, so that each call gives an identifier that was not given before.
\<close>

type_synonym uuid = nat

datatype image = Image string

record clone_settings =
  enabled :: "bool option"
  lfs :: "bool option"
  depth :: "int option"

record cache =
  path :: string

record step =
  step_name :: string
  step_script :: "string list"
  step_after_script :: "string list"
  step_image :: "image option"
  step_clone_settings :: clone_settings
  step_size :: int
  step_services :: "string list"
  step_caches :: "string list"
  step_artifacts :: "string list"

record parallel_step =
  pstep_name :: string
  pstep_steps :: "step list"

datatype node = SimpleNode step | ParallelNode parallel_step

record pipelines =
  defs_image :: "image option"
  defs_clone_settings :: clone_settings
  defs_services :: "(string \<times> string) list"
  defs_caches :: "string \<rightharpoonup> cache"

record config =
  selected_steps :: "string list"
  project_slug :: string
  default_image :: string
  build_container_base_memory_limit :: int
  remote_workspace_dir :: string

section \<open>Errors, events and the outside world\<close>

text \<open>
  \<^verbatim>\<open>ValueError\<close> and \<^verbatim>\<open>Exception\<close> are the two exceptions the engine raises itself.
  \<^verbatim>\<open>TypeError\<close> is what Python raises when a value that is not a pair is unpacked into
  two names, \<^verbatim>\<open>UnicodeDecodeError\<close> when bytes that are not UTF-8 are decoded,
  \<^verbatim>\<open>OSError\<close> when a file cannot be opened, and \<open>External\<close> stands for any exception
  raised inside a collaborator.
\<close>

datatype error =
    ValueError string
  | Exception string
  | TypeError
  | UnicodeDecodeError
  | OSError string
  | External string

text \<open>
  \<^verbatim>\<open>ContainerRunner.run_command\<close> is used in two shapes: \<^verbatim>\<open>cache.py\<close> unpacks its result
  into \<^verbatim>\<open>res, output\<close>, while \<^verbatim>\<open>__init__.py\<close> tests the whole result for truth. Both
  shapes are kept: a bare exit code, or a pair of exit code and output.
\<close>

datatype cmd_result = RCode int | RPair int bytes

text \<open>Python truth of the result: an integer is true when non-zero, a pair always.\<close>

fun truthy_result :: "cmd_result \<Rightarrow> bool" where
  "truthy_result (RCode n) = (n \<noteq> 0)"
| "truthy_result (RPair n out) = True"

fun result_code :: "cmd_result \<Rightarrow> int" where
  "result_code (RCode n) = n"
| "result_code (RPair n out) = n"

datatype cmd = Argv "string list" | Shell string

datatype level = DEBUG | INFO | WARNING | ERROR

text \<open>
  Arguments of a log call. \<open>Elapsed\<close> stands for a wall-clock duration
  (\<^verbatim>\<open>ts() - s\<close>), which the model does not compute, and \<open>HumanSize n\<close> for
  \<^verbatim>\<open>utils.get_human_readable_size(n)\<close>.
\<close>

datatype logarg = Str string | Num int | Uuid uuid | Elapsed | HumanSize nat

text \<open>
  One event per call that leaves the engine: a log record, a call of a collaborator, or
  the opening of a local file. An event is recorded when the call is made, whether it
  then returns or raises.
\<close>

datatype event =
    Log level string "logarg list"
  | ServicesManagerNew "string list" "(string \<times> string) list" int string
  | StartServices
  | GetServicesNames
  | StopServices
  | ContainerRunnerNew image string int "string list" string
  | ContainerStart
  | ContainerStop
  | RunCommand cmd
  | RunScript "string list" "(string \<times> int) list"
  | ExpandPath string
  | PutArchive string bytes
  | GetArchive string
  | OpenRead string
  | OpenWrite string
  | ArtifactUpload uuid uuid
  | ArtifactDownload uuid uuid "string list"

text \<open>
  The behaviour of everything outside the two source files during one run of a step:
  what each collaborator call returns, or the exception it raises. The archive stream of
  \<^verbatim>\<open>get_archive\<close> is a list of chunks and, when the stream breaks after them, the
  exception that ends it. Opening a local file can be refused by the operating system
  (a missing directory, a file that may not be read or written), for reading and for
  writing separately.
\<close>

record world =
  w_slugify :: "string \<Rightarrow> string"
  w_get_git_current_branch :: string
  w_get_local_cache_directory :: string
  w_CloneSettings_default :: clone_settings
  w_services_manager_init :: "error option"
  w_start_services :: "error option"
  w_get_services_names :: "error + string list"
  w_stop_services :: "error option"
  w_container_runner_init :: "error option"
  w_container_start :: "error option"
  w_container_stop :: "error option"
  w_run_command :: "cmd \<Rightarrow> error + cmd_result"
  w_run_script :: "string list \<Rightarrow> (string \<times> int) list \<Rightarrow> error + int"
  w_expand_path :: "string \<Rightarrow> error + string"
  w_put_archive :: "string \<Rightarrow> bytes \<Rightarrow> error + bool"
  w_get_archive :: "string \<Rightarrow> error + (bytes list \<times> error option)"
  w_artifact_upload :: "error option"
  w_artifact_download :: "string list \<Rightarrow> error option"
  w_open_read :: "string \<Rightarrow> error option"
  w_open_write :: "string \<Rightarrow> error option"

text \<open>
  The state threaded through a run: the events so far, the local cache archive files,
  the two attributes \<^verbatim>\<open>_services_manager\<close> and \<^verbatim>\<open>_container_runner\<close> of the step
  runner that is running (\<open>False\<close> for \<^verbatim>\<open>None\<close>), the number of step runs started so
  far, and the next identifier that \<^verbatim>\<open>uuid.uuid4()\<close> hands out.
\<close>

record state =
  trace :: "event list"
  files :: "string \<rightharpoonup> bytes"
  services_manager :: bool
  container_runner :: bool
  clock :: nat
  next_uuid :: nat

section \<open>Computations that may raise\<close>

type_synonym 'a exec = "state \<Rightarrow> (error + 'a) \<times> state"

definition ret :: "'a \<Rightarrow> 'a exec" where
  "ret x s = (Inr x, s)"

definition raise :: "error \<Rightarrow> 'a exec" where
  "raise e s = (Inl e, s)"

definition bnd :: "'a exec \<Rightarrow> ('a \<Rightarrow> 'b exec) \<Rightarrow> 'b exec" where
  "bnd m f s = (case m s of (Inl e, s') \<Rightarrow> (Inl e, s') | (Inr x, s') \<Rightarrow> f x s')"

definition emit :: "event \<Rightarrow> unit exec" where
  "emit ev s = (Inr (), s\<lparr>trace := trace s @ [ev]\<rparr>)"

definition log :: "level \<Rightarrow> string \<Rightarrow> logarg list \<Rightarrow> unit exec" where
  "log l fmt args = emit (Log l fmt args)"

text \<open>A collaborator call without a result: it is recorded, then returns or raises.\<close>

definition call :: "event \<Rightarrow> error option \<Rightarrow> unit exec" where
  "call ev outcome = bnd (emit ev) (\<lambda>_. case outcome of None \<Rightarrow> ret () | Some e \<Rightarrow> raise e)"

text \<open>A collaborator call with a result.\<close>

definition call_val :: "event \<Rightarrow> error + 'a \<Rightarrow> 'a exec" where
  "call_val ev outcome = bnd (emit ev) (\<lambda>_. case outcome of Inl e \<Rightarrow> raise e | Inr v \<Rightarrow> ret v)"

text \<open>\<^verbatim>\<open>for x in xs: f(x)\<close>: an exception in one round ends the loop.\<close>

fun foreach :: "('a \<Rightarrow> unit exec) \<Rightarrow> 'a list \<Rightarrow> unit exec" where
  "foreach f [] = ret ()"
| "foreach f (x # xs) = bnd (f x) (\<lambda>_. foreach f xs)"

text \<open>
  \<^verbatim>\<open>try: body finally: fin\<close>. The \<^verbatim>\<open>finally\<close> block runs on the state the body left,
  whether the body returned or raised. When the block itself raises, that exception
  replaces the outcome of the body; otherwise the outcome of the body stands.
\<close>

definition try_finally :: "'a exec \<Rightarrow> unit exec \<Rightarrow> 'a exec" where
  "try_finally body fin s =
     (case body s of (r, s1) \<Rightarrow>
        (case fin s1 of (Inl e, s2) \<Rightarrow> (Inl e, s2) | (Inr u, s2) \<Rightarrow> (r, s2)))"

section \<open>Paths and numbers as text\<close>

text \<open>The apostrophe, for format strings that end in one.\<close>

definition apos :: string where
  "apos = [CHR 0x27]"

text \<open>\<^verbatim>\<open>os.path.join(a, b)\<close> of \<^verbatim>\<open>posixpath\<close>, for two components.\<close>

definition path_join :: "string \<Rightarrow> string \<Rightarrow> string" where
  "path_join a b =
     (if take 1 b = ''/'' then b
      else if a = [] \<or> last a = CHR ''/'' then a @ b
      else a @ ''/'' @ b)"

text \<open>
  \<^verbatim>\<open>os.path.dirname(p)\<close> of \<^verbatim>\<open>posixpath\<close>: the part up to the last slash, with its
  trailing slashes removed unless it consists of slashes only.
\<close>

definition dirname :: "string \<Rightarrow> string" where
  "dirname p =
     (let head = rev (dropWhile (\<lambda>c. c \<noteq> CHR ''/'') (rev p))
      in if head \<noteq> [] \<and> list_ex (\<lambda>c. c \<noteq> CHR ''/'') head
         then rev (dropWhile (\<lambda>c. c = CHR ''/'') (rev head))
         else head)"

text \<open>\<^verbatim>\<open>str(n)\<close> for an integer: decimal digits, with a minus sign when negative.\<close>

fun str_nat :: "nat \<Rightarrow> string" where
  "str_nat n =
     (if n < 10 then [''0123456789'' ! n]
      else str_nat (n div 10) @ [''0123456789'' ! (n mod 10)])"

declare str_nat.simps [simp del]

definition str_int :: "int \<Rightarrow> string" where
  "str_int i = (if i < 0 then ''-'' @ str_nat (nat (- i)) else str_nat (nat i))"

section \<open>The cache manager (cache.py)\<close>

text \<open>\<^verbatim>\<open>self._ignored_caches = {"docker"}\<close>\<close>

definition ignored_caches :: "string set" where
  "ignored_caches = {''docker''}"

definition should_ignore :: "string \<Rightarrow> bool" where
  "should_ignore cache_name = (cache_name \<in> ignored_caches)"

definition get_local_cache_archive_path :: "world \<Rightarrow> string \<Rightarrow> string" where
  "get_local_cache_archive_path w cache_name =
     path_join (w_get_local_cache_directory w) (cache_name @ ''.tar'')"

definition get_remote_directory :: "(string \<rightharpoonup> cache) \<Rightarrow> world \<Rightarrow> string \<Rightarrow> string exec" where
  "get_remote_directory cache_definitions w cache_name =
     (case cache_definitions cache_name of
        None \<Rightarrow> raise (ValueError (''Invalid cache: '' @ cache_name))
      | Some c \<Rightarrow> call_val (ExpandPath (path c)) (w_expand_path w (path c)))"

text \<open>\<^verbatim>\<open>os.path.exists\<close> and \<^verbatim>\<open>os.path.getsize\<close> on the local cache archives.\<close>

definition path_exists :: "string \<Rightarrow> bool exec" where
  "path_exists p s = (Inr (files s p \<noteq> None), s)"

definition getsize :: "string \<Rightarrow> nat exec" where
  "getsize p s =
     (case files s p of None \<Rightarrow> (Inl (OSError p), s) | Some b \<Rightarrow> (Inr (length b), s))"

text \<open>
  \<^verbatim>\<open>open(p, "rb")\<close>, handing over the contents that the reader of the file will see. It
  raises when the operating system refuses, and when the file does not exist.
\<close>

definition open_rb :: "world \<Rightarrow> string \<Rightarrow> bytes exec" where
  "open_rb w p =
     bnd (emit (OpenRead p))
       (\<lambda>_ s. case w_open_read w p of
                Some e \<Rightarrow> (Inl e, s)
              | None \<Rightarrow>
                 (case files s p of None \<Rightarrow> (Inl (OSError p), s) | Some b \<Rightarrow> (Inr b, s)))"

text \<open>
  \<^verbatim>\<open>open(p, "wb")\<close>: when the operating system refuses, it raises and the files stay as
  they are; otherwise the file is created, or cut to length zero when it exists.
\<close>

definition open_wb :: "world \<Rightarrow> string \<Rightarrow> unit exec" where
  "open_wb w p =
     bnd (emit (OpenWrite p))
       (\<lambda>_ s. case w_open_write w p of
                Some e \<Rightarrow> (Inl e, s)
              | None \<Rightarrow> (Inr (), s\<lparr>files := (files s)(p \<mapsto> [])\<rparr>))"

text \<open>\<^verbatim>\<open>f.write(chunk)\<close> on a file opened for writing.\<close>

definition write_chunk :: "string \<Rightarrow> bytes \<Rightarrow> unit exec" where
  "write_chunk p chunk s =
     (Inr (), s\<lparr>files := (files s)(p \<mapsto> (case files s p of None \<Rightarrow> [] | Some b \<Rightarrow> b) @ chunk)\<rparr>)"

text \<open>
  The shell line of \<^verbatim>\<open>_upload_cache\<close> that removes the target directory and creates its
  parent.
\<close>

definition prepare_cache_dir_cmd :: "string \<Rightarrow> string \<Rightarrow> string" where
  \<open>prepare_cache_dir_cmd remote_cache_directory remote_cache_parent_directory =
     ''[ -d "'' @ remote_cache_directory @ ''" ] && rm -rf "'' @ remote_cache_directory @ ''"; ''
     @ ''mkdir -p "'' @ remote_cache_parent_directory @ ''"''\<close>

text \<open>
  Well-formed UTF-8, on the values of the bytes: the byte sequences that Python's strict
  decoder accepts. Overlong forms, surrogates and code points beyond U+10FFFF are not
  among them.
\<close>

definition continuation :: "nat \<Rightarrow> bool" where
  "continuation b = (0x80 \<le> b \<and> b \<le> 0xBF)"

fun utf8_valid :: "nat list \<Rightarrow> bool" where
  "utf8_valid [] = True"
| "utf8_valid [b] = (b < 0x80)"
| "utf8_valid [b, c1] = (if b < 0x80 then c1 < 0x80 else 0xC2 \<le> b \<and> b \<le> 0xDF \<and> continuation c1)"
| "utf8_valid [b, c1, c2] =
     (if b < 0x80 then utf8_valid [c1, c2]
      else if 0xC2 \<le> b \<and> b \<le> 0xDF then continuation c1 \<and> c2 < 0x80
      else (b = 0xE0 \<and> 0xA0 \<le> c1 \<and> c1 \<le> 0xBF
            \<or> (0xE1 \<le> b \<and> b \<le> 0xEC \<or> b = 0xEE \<or> b = 0xEF) \<and> continuation c1
            \<or> b = 0xED \<and> 0x80 \<le> c1 \<and> c1 \<le> 0x9F)
           \<and> continuation c2)"
| "utf8_valid (b # c1 # c2 # c3 # bs) =
     (if b < 0x80 then utf8_valid (c1 # c2 # c3 # bs)
      else if 0xC2 \<le> b \<and> b \<le> 0xDF then continuation c1 \<and> utf8_valid (c2 # c3 # bs)
      else if 0xE0 \<le> b \<and> b \<le> 0xEF
      then (b = 0xE0 \<and> 0xA0 \<le> c1 \<and> c1 \<le> 0xBF
            \<or> (0xE1 \<le> b \<and> b \<le> 0xEC \<or> b = 0xEE \<or> b = 0xEF) \<and> continuation c1
            \<or> b = 0xED \<and> 0x80 \<le> c1 \<and> c1 \<le> 0x9F)
           \<and> continuation c2 \<and> utf8_valid (c3 # bs)
      else (b = 0xF0 \<and> 0x90 \<le> c1 \<and> c1 \<le> 0xBF
            \<or> 0xF1 \<le> b \<and> b \<le> 0xF3 \<and> continuation c1
            \<or> b = 0xF4 \<and> 0x80 \<le> c1 \<and> c1 \<le> 0x8F)
           \<and> continuation c2 \<and> continuation c3 \<and> utf8_valid bs)"

text \<open>
  \<^verbatim>\<open>output.decode()\<close>: text is kept as its UTF-8 bytes, so decoding returns the bytes it
  was given when they are well-formed, and raises otherwise.
\<close>

definition decode :: "bytes \<Rightarrow> string exec" where
  "decode output =
     (if utf8_valid (map of_char output) then ret output else raise UnicodeDecodeError)"

text \<open>\<^verbatim>\<open>res, output = ...\<close>\<close>

fun unpack_result :: "cmd_result \<Rightarrow> (int \<times> bytes) exec" where
  "unpack_result (RPair res output) = ret (res, output)"
| "unpack_result (RCode n) = raise TypeError"

definition upload_cache :: "(string \<rightharpoonup> cache) \<Rightarrow> world \<Rightarrow> string \<Rightarrow> unit exec" where
  "upload_cache cache_definitions w cache_name =
     (if should_ignore cache_name then log INFO ''Cache '%s': Ignoring'' [Str cache_name]
      else
        let local_cache_archive_path = get_local_cache_archive_path w cache_name in
        bnd (path_exists local_cache_archive_path) (\<lambda>ex.
        if \<not> ex then log INFO ''Cache '%s': Not found: Skipping'' [Str cache_name]
        else
          bnd (get_remote_directory cache_definitions w cache_name) (\<lambda>remote_cache_directory.
          let remote_cache_parent_directory = dirname remote_cache_directory;
              prepare = Shell (prepare_cache_dir_cmd remote_cache_directory
                                 remote_cache_parent_directory) in
          bnd (getsize local_cache_archive_path) (\<lambda>cache_archive_size.
          bnd (log INFO ''Cache '%s': Uploading'' [Str cache_name]) (\<lambda>_.
          bnd (call_val (RunCommand prepare) (w_run_command w prepare)) (\<lambda>r.
          bnd (unpack_result r) (\<lambda>(res, output).
          bnd (if res \<noteq> 0
               then bnd (decode output) (\<lambda>decoded.
                    bnd (log ERROR ''Remote command failed: %s'' [Str decoded])
                      (\<lambda>_. raise (Exception (''Error uploading cache: '' @ cache_name))))
               else ret ()) (\<lambda>_.
          bnd (open_rb w local_cache_archive_path) (\<lambda>f.
          bnd (call_val (PutArchive remote_cache_parent_directory f)
                 (w_put_archive w remote_cache_parent_directory f)) (\<lambda>success.
          bnd (if \<not> success
               then raise (Exception (''Error uploading cache: '' @ cache_name))
               else ret ()) (\<lambda>_.
          log INFO ''Cache '%s': Uploaded %s in %.3fs''
            [Str cache_name, HumanSize cache_archive_size, Elapsed])))))))))))"

text \<open>The loop of \<^verbatim>\<open>_download_cache\<close> over the chunks, with the running byte count.\<close>

fun write_chunks :: "string \<Rightarrow> bytes list \<Rightarrow> nat \<Rightarrow> nat exec" where
  "write_chunks p [] size_acc = ret size_acc"
| "write_chunks p (chunk # data) size_acc =
     bnd (write_chunk p chunk) (\<lambda>_. write_chunks p data (size_acc + length chunk))"

definition download_cache :: "(string \<rightharpoonup> cache) \<Rightarrow> world \<Rightarrow> string \<Rightarrow> unit exec" where
  "download_cache cache_definitions w cache_name =
     (if should_ignore cache_name then log INFO ''Cache '%s': Ignoring'' [Str cache_name]
      else
        let local_cache_archive_path = get_local_cache_archive_path w cache_name in
        bnd (get_remote_directory cache_definitions w cache_name) (\<lambda>remote_cache_directory.
        bnd (if remote_cache_directory = []
             then log INFO ''Cache '%s': Ignoring'' [Str cache_name]
             else ret ()) (\<lambda>_.
        bnd (log INFO ''Cache '%s': Downloading'' [Str cache_name]) (\<lambda>_.
        bnd (open_wb w local_cache_archive_path) (\<lambda>_.
        bnd (call_val (GetArchive remote_cache_directory)
               (w_get_archive w remote_cache_directory)) (\<lambda>(data, broken).
        bnd (write_chunks local_cache_archive_path data 0) (\<lambda>size_total.
        bnd (case broken of None \<Rightarrow> ret () | Some e \<Rightarrow> raise e) (\<lambda>_.
        log INFO ''Cache '%s': Downloaded %s in %.3fs''
          [Str cache_name, HumanSize size_total, Elapsed]))))))))"

definition CacheManager_upload :: "(string \<rightharpoonup> cache) \<Rightarrow> world \<Rightarrow> string list \<Rightarrow> unit exec" where
  "CacheManager_upload cache_definitions w cache_names =
     foreach (upload_cache cache_definitions w) cache_names"

definition CacheManager_download :: "(string \<rightharpoonup> cache) \<Rightarrow> world \<Rightarrow> string list \<Rightarrow> unit exec" where
  "CacheManager_download cache_definitions w cache_names =
     foreach (download_cache cache_definitions w) cache_names"

section \<open>The step runner (StepRunner in __init__.py)\<close>

definition should_run :: "config \<Rightarrow> step \<Rightarrow> bool" where
  "should_run cfg st =
     (if selected_steps cfg \<noteq> [] \<and> step_name st \<notin> set (selected_steps cfg) then False
      else True)"

definition get_image :: "config \<Rightarrow> pipelines \<Rightarrow> step \<Rightarrow> image" where
  "get_image cfg defs st =
     (case step_image st of
        Some i \<Rightarrow> i
      | None \<Rightarrow> (case defs_image defs of Some i \<Rightarrow> i | None \<Rightarrow> Image (default_image cfg)))"

definition get_build_container_memory_limit :: "config \<Rightarrow> step \<Rightarrow> int" where
  "get_build_container_memory_limit cfg st = build_container_base_memory_limit cfg * step_size st"

text \<open>
  \<^verbatim>\<open>for v in (...): if v is not None: return v\<close>, the loop shared by the three
  clone-settings lookups. Falling off the end of the loop returns \<^verbatim>\<open>None\<close>.
\<close>

fun first_not_none :: "'a option list \<Rightarrow> 'a option" where
  "first_not_none [] = None"
| "first_not_none (v # vs) = (case v of Some x \<Rightarrow> Some x | None \<Rightarrow> first_not_none vs)"

definition should_clone :: "world \<Rightarrow> pipelines \<Rightarrow> step \<Rightarrow> bool option" where
  "should_clone w defs st =
     first_not_none
       [enabled (step_clone_settings st),
        enabled (defs_clone_settings defs),
        enabled (w_CloneSettings_default w)]"

definition should_clone_lfs :: "world \<Rightarrow> pipelines \<Rightarrow> step \<Rightarrow> bool option" where
  "should_clone_lfs w defs st =
     first_not_none
       [lfs (step_clone_settings st),
        lfs (defs_clone_settings defs),
        lfs (w_CloneSettings_default w)]"

definition get_clone_depth :: "world \<Rightarrow> pipelines \<Rightarrow> step \<Rightarrow> int option" where
  "get_clone_depth w defs st =
     first_not_none
       [depth (step_clone_settings st),
        depth (defs_clone_settings defs),
        depth (w_CloneSettings_default w)]"

text \<open>Python truth of an optional boolean and of an optional integer.\<close>

definition truthy_bool :: "bool option \<Rightarrow> bool" where
  "truthy_bool v = (v = Some True)"

definition truthy_int :: "int option \<Rightarrow> bool" where
  "truthy_int v = (case v of None \<Rightarrow> False | Some n \<Rightarrow> n \<noteq> 0)"

text \<open>The argument list that \<^verbatim>\<open>_clone_repository\<close> builds for the clone.\<close>

definition clone_cmd :: "config \<Rightarrow> pipelines \<Rightarrow> world \<Rightarrow> step \<Rightarrow> string list" where
  "clone_cmd cfg defs w st =
     (if \<not> truthy_bool (should_clone_lfs w defs st) then [''GIT_LFS_SKIP_SMUDGE=1''] else [])
     @ [''git'', ''clone'', ''--branch'', w_get_git_current_branch w]
     @ (let clone_depth = get_clone_depth w defs st
        in if truthy_int clone_depth then [''--depth'', str_int (the clone_depth)] else [])
     @ [''file://'' @ remote_workspace_dir cfg, ''$BUILD_DIR'']"

definition reset_cmd :: "string list" where
  "reset_cmd = [''git'', ''reset'', ''--hard'', ''$BITBUCKET_COMMIT'']"

definition run_command :: "world \<Rightarrow> cmd \<Rightarrow> cmd_result exec" where
  "run_command w c = call_val (RunCommand c) (w_run_command w c)"

definition run_script :: "world \<Rightarrow> string list \<Rightarrow> (string \<times> int) list \<Rightarrow> int exec" where
  "run_script w commands env = call_val (RunScript commands env) (w_run_script w commands env)"

definition clone_repository :: "config \<Rightarrow> pipelines \<Rightarrow> world \<Rightarrow> step \<Rightarrow> unit exec" where
  "clone_repository cfg defs w st =
     (if \<not> truthy_bool (should_clone w defs st) then log INFO ''Clone disabled: skipping'' []
      else
        bnd (run_command w (Argv (clone_cmd cfg defs w st))) (\<lambda>exit_code.
        if truthy_result exit_code then raise (Exception ''Error cloning repository'')
        else
          bnd (run_command w (Argv reset_cmd)) (\<lambda>exit_code.
          if truthy_result exit_code then raise (Exception ''Error resetting to HEAD commit'')
          else ret ())))"

definition upload_artifacts :: "world \<Rightarrow> uuid \<Rightarrow> uuid \<Rightarrow> unit exec" where
  "upload_artifacts w pipeline_uuid step_uuid =
     call (ArtifactUpload pipeline_uuid step_uuid) (w_artifact_upload w)"

definition upload_caches :: "pipelines \<Rightarrow> world \<Rightarrow> step \<Rightarrow> unit exec" where
  "upload_caches defs w st = CacheManager_upload (defs_caches defs) w (step_caches st)"

definition build_setup ::
  "config \<Rightarrow> pipelines \<Rightarrow> world \<Rightarrow> uuid \<Rightarrow> uuid \<Rightarrow> step \<Rightarrow> unit exec" where
  "build_setup cfg defs w pipeline_uuid step_uuid st =
     bnd (log INFO (''Build setup: '%s'' @ apos) [Str (step_name st)]) (\<lambda>_.
     bnd (clone_repository cfg defs w st) (\<lambda>_.
     bnd (upload_artifacts w pipeline_uuid step_uuid) (\<lambda>_.
     bnd (upload_caches defs w st) (\<lambda>_.
     log INFO (''Build setup finished in %.3fs: '%s'' @ apos) [Elapsed, Str (step_name st)]))))"

definition download_caches :: "pipelines \<Rightarrow> world \<Rightarrow> step \<Rightarrow> int \<Rightarrow> unit exec" where
  "download_caches defs w st exit_code =
     (if exit_code = 0 then CacheManager_download (defs_caches defs) w (step_caches st)
      else log WARNING ''Skipping caches for failed step'' [])"

definition download_artifacts :: "world \<Rightarrow> uuid \<Rightarrow> uuid \<Rightarrow> step \<Rightarrow> unit exec" where
  "download_artifacts w pipeline_uuid step_uuid st =
     call (ArtifactDownload pipeline_uuid step_uuid (step_artifacts st))
       (w_artifact_download w (step_artifacts st))"

text \<open>\<^verbatim>\<open>def _stop_services(self): pass\<close>\<close>

definition stop_services :: "unit exec" where
  "stop_services = ret ()"

definition build_teardown ::
  "pipelines \<Rightarrow> world \<Rightarrow> uuid \<Rightarrow> uuid \<Rightarrow> step \<Rightarrow> int \<Rightarrow> unit exec" where
  "build_teardown defs w pipeline_uuid step_uuid st exit_code =
     bnd (log INFO (''Build teardown: '%s'' @ apos) [Str (step_name st)]) (\<lambda>_.
     bnd (download_caches defs w st exit_code) (\<lambda>_.
     bnd (download_artifacts w pipeline_uuid step_uuid st) (\<lambda>_.
     bnd stop_services (\<lambda>_.
     log INFO (''Build teardown finished in %.3fs: '%s'' @ apos) [Elapsed, Str (step_name st)]))))"

text \<open>The assignments to \<^verbatim>\<open>self._services_manager\<close> and \<^verbatim>\<open>self._container_runner\<close>.\<close>

definition set_services_manager :: "bool \<Rightarrow> unit exec" where
  "set_services_manager b s = (Inr (), s\<lparr>services_manager := b\<rparr>)"

definition set_container_runner :: "bool \<Rightarrow> unit exec" where
  "set_container_runner b s = (Inr (), s\<lparr>container_runner := b\<rparr>)"

text \<open>
  The \<^verbatim>\<open>try\<close> block of \<^verbatim>\<open>StepRunner.run\<close>. Each of the two attributes is assigned only
  after its constructor has returned.
\<close>

definition run_try ::
  "config \<Rightarrow> pipelines \<Rightarrow> world \<Rightarrow> uuid \<Rightarrow> uuid \<Rightarrow> step \<Rightarrow> int exec" where
  "run_try cfg defs w pipeline_uuid step_uuid st =
     (let image = get_image cfg defs st;
          container_name = project_slug cfg @ ''-step-'' @ w_slugify w (step_name st);
          data_volume_name = container_name @ ''-data'';
          mem_limit = get_build_container_memory_limit cfg st
      in
      bnd (call (ServicesManagerNew (step_services st) (defs_services defs) (step_size st)
                   data_volume_name) (w_services_manager_init w)) (\<lambda>_.
      bnd (set_services_manager True) (\<lambda>_.
      bnd (call StartServices (w_start_services w)) (\<lambda>_.
      bnd (call_val GetServicesNames (w_get_services_names w)) (\<lambda>services_names.
      bnd (call (ContainerRunnerNew image container_name mem_limit services_names
                   data_volume_name) (w_container_runner_init w)) (\<lambda>_.
      bnd (set_container_runner True) (\<lambda>_.
      bnd (call ContainerStart (w_container_start w)) (\<lambda>_.
      bnd (build_setup cfg defs w pipeline_uuid step_uuid st) (\<lambda>_.
      bnd (run_script w (step_script st) []) (\<lambda>exit_code.
      bnd (run_script w (step_after_script st) [(''BITBUCKET_EXIT_CODE'', exit_code)]) (\<lambda>_.
      bnd (if exit_code \<noteq> 0 then log ERROR ''Step '%s': FAIL'' [Str (step_name st)]
           else ret ()) (\<lambda>_.
      bnd (build_teardown defs w pipeline_uuid step_uuid st exit_code) (\<lambda>_.
      ret exit_code)))))))))))))"

text \<open>The \<^verbatim>\<open>finally\<close> block of \<^verbatim>\<open>StepRunner.run\<close>.\<close>

definition run_finally :: "world \<Rightarrow> unit exec" where
  "run_finally w =
     bnd (\<lambda>s. if services_manager s then call StopServices (w_stop_services w) s
              else ret () s) (\<lambda>_.
     (\<lambda>s. if container_runner s then call ContainerStop (w_container_stop w) s
          else ret () s))"

text \<open>
  \<^verbatim>\<open>StepRunner.run\<close> on a runner as its constructor leaves it, with both attributes
  \<^verbatim>\<open>None\<close>: every runner is built by the factory and run once.
\<close>

definition StepRunner_run ::
  "config \<Rightarrow> pipelines \<Rightarrow> world \<Rightarrow> uuid \<Rightarrow> uuid \<Rightarrow> step \<Rightarrow> int option exec" where
  "StepRunner_run cfg defs w pipeline_uuid step_uuid st =
     bnd (set_services_manager False) (\<lambda>_.
     bnd (set_container_runner False) (\<lambda>_.
     if \<not> should_run cfg st
     then bnd (log INFO ''Skipping step: %s'' [Str (step_name st)]) (\<lambda>_. ret None)
     else
       bnd (log INFO ''Running step: %s'' [Str (step_name st)]) (\<lambda>_.
       bnd (log DEBUG ''Step ID: %s'' [Uuid step_uuid]) (\<lambda>_.
       bnd (try_finally (run_try cfg defs w pipeline_uuid step_uuid st) (run_finally w))
         (\<lambda>exit_code.
       bnd (log INFO ''Step '%s' executed in %.3fs with exit code: %s''
              [Str (step_name st), Elapsed, Num exit_code]) (\<lambda>_.
       ret (Some exit_code)))))))"

section \<open>Parallel steps, the factory and the pipeline driver\<close>

text \<open>
  The outside world of a whole pipeline run gives one \<open>world\<close> to each run of a step
  runner, in the order in which they start.
\<close>

definition next_world :: "(nat \<Rightarrow> world) \<Rightarrow> world exec" where
  "next_world W s = (Inr (W (clock s)), s\<lparr>clock := Suc (clock s)\<rparr>)"

definition uuid4 :: "uuid exec" where
  "uuid4 s = (Inr (next_uuid s), s\<lparr>next_uuid := Suc (next_uuid s)\<rparr>)"

text \<open>Python truth of an exit status: \<^verbatim>\<open>None\<close> and \<^verbatim>\<open>0\<close> are false.\<close>

definition truthy_code :: "int option \<Rightarrow> bool" where
  "truthy_code rc = (case rc of None \<Rightarrow> False | Some c \<Rightarrow> c \<noteq> 0)"

datatype runner = StepRunner step uuid uuid | ParallelStepRunner parallel_step uuid uuid

definition StepRunnerFactory_get :: "node \<Rightarrow> uuid \<Rightarrow> uuid \<Rightarrow> runner" where
  "StepRunnerFactory_get nd pipeline_uuid step_uuid =
     (case nd of
        ParallelNode p \<Rightarrow> ParallelStepRunner p pipeline_uuid step_uuid
      | SimpleNode st \<Rightarrow> StepRunner st pipeline_uuid step_uuid)"

text \<open>The run of a simple step's runner inside a pipeline run.\<close>

definition simple_run ::
  "config \<Rightarrow> pipelines \<Rightarrow> (nat \<Rightarrow> world) \<Rightarrow> uuid \<Rightarrow> uuid \<Rightarrow> step \<Rightarrow> int option exec" where
  "simple_run cfg defs W pipeline_uuid step_uuid st =
     bnd (next_world W) (\<lambda>w. StepRunner_run cfg defs w pipeline_uuid step_uuid st)"

text \<open>
  The loop of \<^verbatim>\<open>ParallelStepRunner.run\<close>. The children of a parallel step are simple
  steps, for which the factory returns a \<open>StepRunner\<close>; it is handed the identifiers
  \<^verbatim>\<open>self._pipeline_uuid\<close> and \<^verbatim>\<open>self._step_uuid\<close> of the parallel runner.
\<close>

fun parallel_loop ::
  "config \<Rightarrow> pipelines \<Rightarrow> (nat \<Rightarrow> world) \<Rightarrow> uuid \<Rightarrow> uuid \<Rightarrow> step list \<Rightarrow> int
     \<Rightarrow> int option exec" where
  "parallel_loop cfg defs W pipeline_uuid step_uuid [] return_code = ret (Some return_code)"
| "parallel_loop cfg defs W pipeline_uuid step_uuid (s # ss) return_code =
     bnd (simple_run cfg defs W pipeline_uuid step_uuid s) (\<lambda>rc.
     parallel_loop cfg defs W pipeline_uuid step_uuid ss
       (if truthy_code rc then the rc else return_code))"

definition ParallelStepRunner_run ::
  "config \<Rightarrow> pipelines \<Rightarrow> (nat \<Rightarrow> world) \<Rightarrow> uuid \<Rightarrow> uuid \<Rightarrow> parallel_step
     \<Rightarrow> int option exec" where
  "ParallelStepRunner_run cfg defs W pipeline_uuid step_uuid p =
     parallel_loop cfg defs W pipeline_uuid step_uuid (pstep_steps p) 0"

fun runner_run :: "config \<Rightarrow> pipelines \<Rightarrow> (nat \<Rightarrow> world) \<Rightarrow> runner \<Rightarrow> int option exec" where
  "runner_run cfg defs W (StepRunner st pipeline_uuid step_uuid) =
     simple_run cfg defs W pipeline_uuid step_uuid st"
| "runner_run cfg defs W (ParallelStepRunner p pipeline_uuid step_uuid) =
     ParallelStepRunner_run cfg defs W pipeline_uuid step_uuid p"

text \<open>One round of the loop of \<^verbatim>\<open>_execute_pipeline\<close>, up to the exit code of the step.\<close>

definition execute_step ::
  "config \<Rightarrow> pipelines \<Rightarrow> (nat \<Rightarrow> world) \<Rightarrow> uuid \<Rightarrow> node \<Rightarrow> int option exec" where
  "execute_step cfg defs W pipeline_uuid nd =
     bnd uuid4 (\<lambda>step_uuid.
     runner_run cfg defs W (StepRunnerFactory_get nd pipeline_uuid step_uuid))"


section \<open>Reference definitions for the properties\<close>

text \<open>
  Modelled from the spec: \<^verbatim>\<open>CloneSettings.default()\<close> of \<^verbatim>\<open>pipeline_runner.models\<close>,
  which is not among the source files. The spec gives the built-in system default as
  enabled, with LFS, and with no depth (full history).
\<close>

definition CloneSettings_default :: clone_settings where
  "CloneSettings_default = \<lparr>enabled = Some True, lfs = Some True, depth = None\<rparr>"

text \<open>
  The cascade in the words of the spec: the step-level override wins when it is set,
  then the pipeline-level default, then the system default.
\<close>

definition cascade :: "'a option \<Rightarrow> 'a option \<Rightarrow> 'a option \<Rightarrow> 'a option" where
  "cascade step_level pipeline_level system_default =
     (case step_level of
        Some v \<Rightarrow> Some v
      | None \<Rightarrow> (case pipeline_level of Some v \<Rightarrow> Some v | None \<Rightarrow> system_default))"


text \<open>
  Every child runs, in order, whatever exit status the children before it returned; the
  exit statuses are collected.
\<close>

fun run_children ::
  "config \<Rightarrow> pipelines \<Rightarrow> (nat \<Rightarrow> world) \<Rightarrow> uuid \<Rightarrow> uuid \<Rightarrow> step list
     \<Rightarrow> int option list exec" where
  "run_children cfg defs W pipeline_uuid step_uuid [] = ret []"
| "run_children cfg defs W pipeline_uuid step_uuid (c # cs) =
     bnd (simple_run cfg defs W pipeline_uuid step_uuid c) (\<lambda>rc.
     bnd (run_children cfg defs W pipeline_uuid step_uuid cs) (\<lambda>rcs.
     ret (rc # rcs)))"

text \<open>The last non-zero exit code of a list of exit statuses, or 0 when there is none.\<close>

definition last_nonzero :: "int option list \<Rightarrow> int" where
  "last_nonzero rcs =
     (let failed = filter truthy_code rcs in if failed = [] then 0 else the (last failed))"

subsection \<open>Events of a run\<close>

text \<open>
  The events of a step run from its first log record to the start of its container, when
  every call on the way returns.
\<close>

definition acquire_events ::
  "config \<Rightarrow> pipelines \<Rightarrow> world \<Rightarrow> uuid \<Rightarrow> step \<Rightarrow> string list \<Rightarrow> event list" where
  "acquire_events cfg defs w step_uuid st services_names =
     [Log INFO ''Running step: %s'' [Str (step_name st)],
      Log DEBUG ''Step ID: %s'' [Uuid step_uuid],
      ServicesManagerNew (step_services st) (defs_services defs) (step_size st)
        (project_slug cfg @ ''-step-'' @ w_slugify w (step_name st) @ ''-data''),
      StartServices,
      GetServicesNames,
      ContainerRunnerNew (get_image cfg defs st)
        (project_slug cfg @ ''-step-'' @ w_slugify w (step_name st))
        (get_build_container_memory_limit cfg st) services_names
        (project_slug cfg @ ''-step-'' @ w_slugify w (step_name st) @ ''-data''),
      ContainerStart]"

text \<open>A log argument that is a run identifier.\<close>

fun is_uuid :: "logarg \<Rightarrow> bool" where
  "is_uuid (Uuid u) = True"
| "is_uuid a = False"

text \<open>
  The events that carry no run identifier and are no call of the services manager, the
  container life cycle or the artifact manager: log records without an identifier,
  commands, scripts, path expansion, archive transfer and local file access.
\<close>

fun plain_event :: "event \<Rightarrow> bool" where
  "plain_event (Log l fmt args) = (\<not> list_ex is_uuid args)"
| "plain_event (RunCommand c) = True"
| "plain_event (RunScript c env) = True"
| "plain_event (ExpandPath p) = True"
| "plain_event (PutArchive d f) = True"
| "plain_event (GetArchive p) = True"
| "plain_event (OpenRead p) = True"
| "plain_event (OpenWrite p) = True"
| "plain_event e = False"

text \<open>Every event but the start and the stop of the services and of the container.\<close>

fun work_event :: "event \<Rightarrow> bool" where
  "work_event StartServices = False"
| "work_event StopServices = False"
| "work_event ContainerStart = False"
| "work_event ContainerStop = False"
| "work_event e = True"

text \<open>
  The identifiers an event carries are the given ones: the step identifier in a log
  record, the pipeline and step identifiers in a call of the artifact manager.
\<close>

fun ids_ok :: "uuid \<Rightarrow> uuid \<Rightarrow> event \<Rightarrow> bool" where
  "ids_ok pu su (Log l fmt args) = list_all (\<lambda>a. is_uuid a \<longrightarrow> a = Uuid su) args"
| "ids_ok pu su (ArtifactUpload a b) = (a = pu \<and> b = su)"
| "ids_ok pu su (ArtifactDownload a b g) = (a = pu \<and> b = su)"
| "ids_ok pu su e = True"

text \<open>
  From every state, the computation appends events to the trace, all of them with the
  given property.
\<close>

definition emits :: "(event \<Rightarrow> bool) \<Rightarrow> 'a exec \<Rightarrow> bool" where
  "emits P m = (\<forall>s. \<exists>evs. trace (snd (m s)) = trace s @ evs \<and> list_all P evs)"

text \<open>The computation leaves a component of the state as it found it.\<close>

definition keeps :: "(state \<Rightarrow> 'b) \<Rightarrow> 'a exec \<Rightarrow> bool" where
  "keeps f m = (\<forall>s. f (snd (m s)) = f s)"

text \<open>A component of the state that the trace, the files and the clock do not influence.\<close>

definition insensitive :: "(state \<Rightarrow> 'b) \<Rightarrow> bool" where
  "insensitive f = (\<forall>s. (\<forall>t. f (s\<lparr>trace := t\<rparr>) = f s) \<and> (\<forall>x. f (s\<lparr>files := x\<rparr>) = f s)
      \<and> (\<forall>n. f (s\<lparr>clock := n\<rparr>) = f s))"

text \<open>The \<^verbatim>\<open>try\<close> block of \<^verbatim>\<open>StepRunner.run\<close> from the call of \<^verbatim>\<open>_build_setup\<close> on.\<close>

definition run_after_start ::
  "config \<Rightarrow> pipelines \<Rightarrow> world \<Rightarrow> uuid \<Rightarrow> uuid \<Rightarrow> step \<Rightarrow> int exec" where
  "run_after_start cfg defs w pipeline_uuid step_uuid st =
      bnd (build_setup cfg defs w pipeline_uuid step_uuid st) (\<lambda>_.
      bnd (run_script w (step_script st) []) (\<lambda>exit_code.
      bnd (run_script w (step_after_script st) [(''BITBUCKET_EXIT_CODE'', exit_code)]) (\<lambda>_.
      bnd (if exit_code \<noteq> 0 then log ERROR ''Step '%s': FAIL'' [Str (step_name st)]
           else ret ()) (\<lambda>_.
      bnd (build_teardown defs w pipeline_uuid step_uuid st exit_code) (\<lambda>_.
      ret exit_code)))))"

text \<open>The services and the container of the step start without an exception.\<close>

definition acquired :: "world \<Rightarrow> bool" where
  "acquired w =
     (w_services_manager_init w = None \<and> w_start_services w = None
      \<and> (case w_get_services_names w of Inl e \<Rightarrow> False | Inr names \<Rightarrow> True)
      \<and> w_container_runner_init w = None \<and> w_container_start w = None)"

text \<open>The events of a cache download: opening the local archive for writing, and fetching the archive.\<close>

fun persist_event :: "event \<Rightarrow> bool" where
  "persist_event (GetArchive p) = True"
| "persist_event (OpenWrite p) = True"
| "persist_event e = False"






subsection \<open>Concrete inputs\<close>

definition example_config :: config where
  "example_config =
     \<lparr>selected_steps = [], project_slug = ''proj'', default_image = ''alpine'',
      build_container_base_memory_limit = 1024, remote_workspace_dir = ''/ws''\<rparr>"

definition unset_clone_settings :: clone_settings where
  "unset_clone_settings = \<lparr>enabled = None, lfs = None, depth = None\<rparr>"

definition example_definitions :: pipelines where
  "example_definitions =
     \<lparr>defs_image = None, defs_clone_settings = unset_clone_settings, defs_services = [],
      defs_caches = [''pip'' \<mapsto> \<lparr>path = ''/root/.cache/pip''\<rparr>]\<rparr>"

text \<open>
  A world in which every collaborator call returns, the step's script exits with the
  given code and the after-script with 0.
\<close>

definition example_world :: "int \<Rightarrow> world" where
  "example_world code =
     \<lparr>w_slugify = (\<lambda>n. n), w_get_git_current_branch = ''main'',
      w_get_local_cache_directory = ''/cache'',
      w_CloneSettings_default = CloneSettings_default,
      w_services_manager_init = None, w_start_services = None,
      w_get_services_names = Inr [], w_stop_services = None,
      w_container_runner_init = None, w_container_start = None, w_container_stop = None,
      w_run_command = (\<lambda>c. Inr (RCode 0)),
      w_run_script = (\<lambda>commands env. if env = [] then Inr code else Inr 0),
      w_expand_path = (\<lambda>p. Inr p),
      w_put_archive = (\<lambda>d f. Inr True),
      w_get_archive = (\<lambda>p. Inr ([''ab'', ''c''], None)),
      w_artifact_upload = None, w_artifact_download = (\<lambda>g. None),
      w_open_read = (\<lambda>p. None), w_open_write = (\<lambda>p. None)\<rparr>"

text \<open>
  The run numbered \<open>k\<close> has a script that exits with \<open>code\<close>, every other run one
  that exits with 0.
\<close>

definition failing_at :: "nat \<Rightarrow> int \<Rightarrow> nat \<Rightarrow> world" where
  "failing_at k code n = example_world (if n = k then code else 0)"

text \<open>A step with checkout switched off, no services, no caches and no artifacts.\<close>

definition example_step :: "string \<Rightarrow> step" where
  "example_step n =
     \<lparr>step_name = n, step_script = [''make''], step_after_script = [],
      step_image = None, step_clone_settings = unset_clone_settings\<lparr>enabled := Some False\<rparr>,
      step_size = 1, step_services = [], step_caches = [], step_artifacts = []\<rparr>"

definition initial_state :: state where
  "initial_state =
     \<lparr>trace = [], files = Map.empty, services_manager = False, container_runner = False,
      clock = 0, next_uuid = 0\<rparr>"

text \<open>A world in which every command run in the container fails with exit code 128.\<close>

definition clone_fails :: world where
  "clone_fails =
     (example_world 0)\<lparr>w_run_command := (\<lambda>c. Inr (RPair 128 ''fatal: not a repository''))\<rparr>"

text \<open>A step that leaves its clone settings unset and declares one artifact pattern.\<close>

definition cloning_step :: step where
  "cloning_step = (example_step ''build'')\<lparr>step_clone_settings := unset_clone_settings,
     step_artifacts := [''dist/**'']\<rparr>"

text \<open>A world with two services in which running a script raises.\<close>

definition crash_world :: world where
  "crash_world =
     (example_world 0)\<lparr>w_run_script := (\<lambda>commands env. Inl (External ''script crashed'')),
        w_get_services_names := Inr [''db'', ''redis'']\<rparr>"

text \<open>A step that declares two services.\<close>

definition service_step :: step where
  "service_step = (example_step ''test'')\<lparr>step_services := [''db'', ''redis'']\<rparr>"

text \<open>A parallel step with two children.\<close>

definition two_children :: parallel_step where
  "two_children =
     \<lparr>pstep_name = ''checks'', pstep_steps = [example_step ''lint'', example_step ''test'']\<rparr>"


section \<open>Properties\<close>

lemmas exec_defs = ret_def raise_def bnd_def emit_def log_def call_def call_val_def

lemmas step_defs = StepRunner_run_def run_try_def run_finally_def try_finally_def build_setup_def
  build_teardown_def clone_repository_def upload_artifacts_def upload_caches_def
  download_caches_def download_artifacts_def stop_services_def set_services_manager_def
  set_container_runner_def run_script_def run_command_def should_run_def get_image_def
  get_build_container_memory_limit_def should_clone_def truthy_bool_def
  CacheManager_upload_def CacheManager_download_def

lemmas driver_defs = execute_step_def simple_run_def uuid4_def next_world_def
  StepRunnerFactory_get_def truthy_code_def ParallelStepRunner_run_def

lemmas cache_defs = download_cache_def upload_cache_def get_remote_directory_def
  path_exists_def getsize_def open_rb_def open_wb_def write_chunk_def should_ignore_def
  ignored_caches_def get_local_cache_archive_path_def path_join_def

lemmas example_defs = example_config_def example_definitions_def example_world_def
  example_step_def initial_state_def unset_clone_settings_def CloneSettings_default_def
  failing_at_def

subsection \<open>The pipeline driver\<close>




subsection \<open>The parallel runner\<close>

lemma parallel_loop_children:
  "parallel_loop cfg defs W pu su cs acc s =
     (case run_children cfg defs W pu su cs s of
        (Inl e, s') \<Rightarrow> (Inl e, s')
      | (Inr rcs, s') \<Rightarrow>
          (Inr (Some (if filter truthy_code rcs = [] then acc
                      else the (last (filter truthy_code rcs)))), s'))"
proof (induction cs arbitrary: acc s)
  case Nil
  then show ?case by (simp add: ret_def)
next
  case (Cons c cs)
  show ?case
    by (simp add: Cons.IH bnd_def ret_def split: prod.splits sum.splits)
qed

lemma run_children_length:
  "run_children cfg defs W pu su cs s = (Inr rcs, s') \<Longrightarrow> length rcs = length cs"
proof (induction cs arbitrary: s rcs)
  case Nil
  then show ?case by (simp add: ret_def)
next
  case (Cons c cs)
  then show ?case
    by (auto simp add: bnd_def ret_def split: prod.splits sum.splits)
qed

text \<open>
  Claim C4. When every child of a parallel step returns an exit status, the parallel
  runner has run all of them in declared order, whatever the earlier ones returned: it
  ends in the state after the last child, with one status per child, and returns the
  last non-zero exit code among them, or 0 when there is none.
\<close>

theorem parallel_runs_all:
  assumes "run_children cfg defs W pu su (pstep_steps p) s = (Inr rcs, s')"
  shows "ParallelStepRunner_run cfg defs W pu su p s = (Inr (Some (last_nonzero rcs)), s')
         \<and> length rcs = length (pstep_steps p)"
  using assms run_children_length [OF assms]
  by (simp add: ParallelStepRunner_run_def parallel_loop_children last_nonzero_def Let_def)

text \<open>
  The parallel step of the spec: children X, Y, Z exiting 0, 3, 0. The result is 3 and
  three step runs were started.
\<close>

theorem parallel_runs_all_witness:
  "fst (ParallelStepRunner_run example_config example_definitions (failing_at 1 3) 7 8
          \<lparr>pstep_name = ''P'',
            pstep_steps = [example_step ''X'', example_step ''Y'', example_step ''Z'']\<rparr>
          initial_state) = Inr (Some 3)
   \<and> clock (snd (ParallelStepRunner_run example_config example_definitions (failing_at 1 3) 7 8
          \<lparr>pstep_name = ''P'',
            pstep_steps = [example_step ''X'', example_step ''Y'', example_step ''Z'']\<rparr>
          initial_state)) = 3"
proof -
  let ?p = "\<lparr>pstep_name = ''P'',
            pstep_steps = [example_step ''X'', example_step ''Y'', example_step ''Z'']\<rparr>"
  let ?all = "run_children example_config example_definitions (failing_at 1 3) 7 8
                (pstep_steps ?p) initial_state"
  have codes: "fst ?all = Inr [Some 0, Some 3, Some 0]"
    by (simp add: driver_defs step_defs exec_defs example_defs Let_def)
  have ticks: "clock (snd ?all) = 3"
    by (simp add: driver_defs step_defs exec_defs example_defs Let_def)
  have h: "?all = (Inr [Some 0, Some 3, Some 0], snd ?all)"
    using codes by (simp add: prod_eq_iff)
  from parallel_runs_all [OF h] ticks show ?thesis
    by (simp add: last_nonzero_def truthy_code_def)
qed

subsection \<open>Clone settings\<close>

text \<open>
  Claim C8. Each of the three lookups is the cascade of the spec over its own field:
  the step's value when set, else the pipeline-level value when set, else the value of
  the system default. With the system default of the spec and no depth set at either
  level, the effective depth is unset and the clone command carries no depth argument.
\<close>

theorem clone_settings_cascade:
  "should_clone w defs st =
     cascade (enabled (step_clone_settings st)) (enabled (defs_clone_settings defs))
       (enabled (w_CloneSettings_default w))
   \<and> should_clone_lfs w defs st =
     cascade (lfs (step_clone_settings st)) (lfs (defs_clone_settings defs))
       (lfs (w_CloneSettings_default w))
   \<and> get_clone_depth w defs st =
     cascade (depth (step_clone_settings st)) (depth (defs_clone_settings defs))
       (depth (w_CloneSettings_default w))
   \<and> (w_CloneSettings_default w = CloneSettings_default
        \<and> depth (step_clone_settings st) = None \<and> depth (defs_clone_settings defs) = None
      \<longrightarrow> get_clone_depth w defs st = None
          \<and> clone_cmd cfg defs w st =
              (if truthy_bool (should_clone_lfs w defs st) then [] else [''GIT_LFS_SKIP_SMUDGE=1''])
              @ [''git'', ''clone'', ''--branch'', w_get_git_current_branch w,
                 ''file://'' @ remote_workspace_dir cfg, ''$BUILD_DIR''])"
  by (simp add: should_clone_def should_clone_lfs_def get_clone_depth_def cascade_def
      clone_cmd_def truthy_int_def CloneSettings_default_def split: option.splits)

text \<open>
  The examples of the spec: pipeline depth 10 with the step's depth unset gives 10, step
  depth 3 over pipeline depth 10 gives 3, and nothing set gives no depth and a clone
  command without \<^verbatim>\<open>--depth\<close>.
\<close>

theorem clone_settings_cascade_witness:
  "get_clone_depth (example_world 0)
     (example_definitions\<lparr>defs_clone_settings := unset_clone_settings\<lparr>depth := Some 10\<rparr>\<rparr>)
     (example_step ''build'') = Some 10
   \<and> get_clone_depth (example_world 0)
     (example_definitions\<lparr>defs_clone_settings := unset_clone_settings\<lparr>depth := Some 10\<rparr>\<rparr>)
     ((example_step ''build'')\<lparr>step_clone_settings := unset_clone_settings\<lparr>depth := Some 3\<rparr>\<rparr>)
       = Some 3
   \<and> get_clone_depth (example_world 0) example_definitions (example_step ''build'') = None
   \<and> clone_cmd example_config example_definitions (example_world 0) (example_step ''build'')
       = [''git'', ''clone'', ''--branch'', ''main'', ''file:///ws'', ''$BUILD_DIR'']"
proof -
  let ?ten = "example_definitions\<lparr>defs_clone_settings := unset_clone_settings\<lparr>depth := Some 10\<rparr>\<rparr>"
  let ?three = "(example_step ''build'')\<lparr>step_clone_settings := unset_clone_settings\<lparr>depth := Some 3\<rparr>\<rparr>"
  have a: "get_clone_depth (example_world 0) ?ten (example_step ''build'') = Some 10"
    using clone_settings_cascade [of "example_world 0" ?ten "example_step ''build''" example_config]
    by (simp add: cascade_def example_defs)
  have b: "get_clone_depth (example_world 0) ?ten ?three = Some 3"
    using clone_settings_cascade [of "example_world 0" ?ten ?three example_config]
    by (simp add: cascade_def example_defs)
  have c: "get_clone_depth (example_world 0) example_definitions (example_step ''build'') = None
     \<and> clone_cmd example_config example_definitions (example_world 0) (example_step ''build'')
       = [''git'', ''clone'', ''--branch'', ''main'', ''file:///ws'', ''$BUILD_DIR'']"
    using clone_settings_cascade [of "example_world 0" example_definitions
        "example_step ''build''" example_config]
    by (simp add: cascade_def example_defs truthy_bool_def)
  from a b c show ?thesis by simp
qed

subsection \<open>The cache manager\<close>

text \<open>
  A loop over two lists in a row runs the second one in the state the first one left,
  unless the first one raised.
\<close>

lemma foreach_append:
  "foreach f (xs @ ys) s =
     (case foreach f xs s of (Inl e, s1) \<Rightarrow> (Inl e, s1) | (Inr u, s1) \<Rightarrow> foreach f ys s1)"
proof (induction xs arbitrary: s)
  case Nil
  then show ?case by (simp add: ret_def)
next
  case (Cons x xs)
  then show ?case
    by (simp add: bnd_def split: prod.splits sum.splits)
qed

lemma download_unknown:
  "\<not> should_ignore n \<Longrightarrow> cd n = None \<Longrightarrow>
   download_cache cd w n s = (Inl (ValueError (''Invalid cache: '' @ n)), s)"
  by (simp add: download_cache_def get_remote_directory_def exec_defs Let_def)

lemma upload_unknown:
  "\<not> should_ignore n \<Longrightarrow> cd n = None \<Longrightarrow>
   upload_cache cd w n s =
     (if files s (get_local_cache_archive_path w n) \<noteq> None
      then (Inl (ValueError (''Invalid cache: '' @ n)), s)
      else (Inr (), s\<lparr>trace := trace s @ [Log INFO ''Cache '%s': Not found: Skipping'' [Str n]]\<rparr>))"
  by (auto simp add: upload_cache_def get_remote_directory_def path_exists_def exec_defs Let_def)

text \<open>
  Claim C6, as amended. Take a cache name that is neither ignored nor defined, anywhere
  in the list given to \<^verbatim>\<open>CacheManager.download\<close> or \<^verbatim>\<open>CacheManager.upload\<close>, and
  let the names before it be processed without an exception. Then \<^verbatim>\<open>download\<close> raises
  \<^verbatim>\<open>ValueError\<close> in the very state those names left: nothing is transferred for this
  name and the names after it are not touched, while the caches before it have been
  transferred by then. \<^verbatim>\<open>upload\<close> does the same when a local archive of that name
  exists; when none exists it logs that the cache was not found and goes on with the rest
  of the list, without an error.
\<close>

theorem unknown_cache_fatal:
  assumes "\<not> should_ignore n" and "cd n = None"
  shows "(CacheManager_download cd w pre s = (Inr (), s1) \<longrightarrow>
           CacheManager_download cd w (pre @ n # post) s
             = (Inl (ValueError (''Invalid cache: '' @ n)), s1))
    \<and> (CacheManager_upload cd w pre s = (Inr (), s1)
         \<and> files s1 (get_local_cache_archive_path w n) \<noteq> None \<longrightarrow>
           CacheManager_upload cd w (pre @ n # post) s
             = (Inl (ValueError (''Invalid cache: '' @ n)), s1))
    \<and> (CacheManager_upload cd w pre s = (Inr (), s1)
         \<and> files s1 (get_local_cache_archive_path w n) = None \<longrightarrow>
           CacheManager_upload cd w (pre @ n # post) s
             = CacheManager_upload cd w post
                 (s1\<lparr>trace := trace s1
                    @ [Log INFO ''Cache '%s': Not found: Skipping'' [Str n]]\<rparr>))"
  using assms
  by (simp add: CacheManager_download_def CacheManager_upload_def foreach_append
      download_unknown upload_unknown bnd_def)

text \<open>
  The name \<^verbatim>\<open>node\<close> is not defined. Downloading \<^verbatim>\<open>pip\<close>, \<^verbatim>\<open>node\<close>, \<^verbatim>\<open>pip\<close> raises
  in the state that the download of the first \<^verbatim>\<open>pip\<close> alone leaves, and uploading
  \<^verbatim>\<open>node\<close>, \<^verbatim>\<open>pip\<close> raises at once when \<^verbatim>\<open>/cache/node.tar\<close> exists.
\<close>

theorem unknown_cache_fatal_witness:
  "fst (CacheManager_download (defs_caches example_definitions) (example_world 0)
          [''pip'', ''node'', ''pip''] initial_state) = Inl (ValueError ''Invalid cache: node'')
   \<and> snd (CacheManager_download (defs_caches example_definitions) (example_world 0)
          [''pip'', ''node'', ''pip''] initial_state)
      = snd (CacheManager_download (defs_caches example_definitions) (example_world 0)
          [''pip''] initial_state)
   \<and> CacheManager_upload (defs_caches example_definitions) (example_world 0) [''node'', ''pip'']
       (initial_state\<lparr>files := [''/cache/node.tar'' \<mapsto> ''old'']\<rparr>)
     = (Inl (ValueError ''Invalid cache: node''),
        initial_state\<lparr>files := [''/cache/node.tar'' \<mapsto> ''old'']\<rparr>)"
proof -
  let ?cd = "defs_caches example_definitions"
  let ?s = "initial_state\<lparr>files := [''/cache/node.tar'' \<mapsto> ''old'']\<rparr>"
  have n: "\<not> should_ignore ''node''"
    by (simp add: should_ignore_def ignored_caches_def)
  have u: "?cd ''node'' = None"
    by (simp add: example_defs)
  have p: "get_local_cache_archive_path (example_world 0) ''node'' = ''/cache/node.tar''"
    by (simp add: get_local_cache_archive_path_def path_join_def example_defs)
  have pip: "fst (CacheManager_download ?cd (example_world 0) [''pip''] initial_state) = Inr ()"
    by (simp add: CacheManager_download_def cache_defs exec_defs example_defs Let_def)
  then have before: "CacheManager_download ?cd (example_world 0) [''pip''] initial_state
      = (Inr (), snd (CacheManager_download ?cd (example_world 0) [''pip''] initial_state))"
    by (simp add: prod_eq_iff)
  have none: "CacheManager_upload ?cd (example_world 0) [] ?s = (Inr (), ?s)"
    by (simp add: CacheManager_upload_def ret_def)
  from n u before none p
    unknown_cache_fatal [where n = "''node''" and cd = ?cd and w = "example_world 0"
      and pre = "[''pip'']" and post = "[''pip'']" and s = initial_state
      and ?s1.0 = "snd (CacheManager_download ?cd (example_world 0) [''pip''] initial_state)"]
    unknown_cache_fatal [where n = "''node''" and cd = ?cd and w = "example_world 0"
      and pre = "[]" and post = "[''pip'']" and s = ?s and ?s1.0 = ?s]
  show ?thesis by simp
qed

text \<open>
  Claim C6 as stated fails twice. Uploading the undefined name \<^verbatim>\<open>node\<close> when no local
  archive exists returns normally, with one informational log record and no error. And
  downloading \<^verbatim>\<open>pip\<close>, \<^verbatim>\<open>node\<close> raises only after the archive of \<^verbatim>\<open>pip\<close> has been
  requested from the container.
\<close>

theorem upload_unknown_cache_counterexample:
  "\<not> should_ignore ''node''
   \<and> defs_caches example_definitions ''node'' = None
   \<and> CacheManager_upload (defs_caches example_definitions) (example_world 0) [''node'']
        initial_state
      = (Inr (), initial_state\<lparr>trace :=
           [Log INFO ''Cache '%s': Not found: Skipping'' [Str ''node'']]\<rparr>)
   \<and> fst (CacheManager_download (defs_caches example_definitions) (example_world 0)
        [''pip'', ''node''] initial_state) = Inl (ValueError ''Invalid cache: node'')
   \<and> GetArchive ''/root/.cache/pip''
       \<in> set (trace (snd (CacheManager_download (defs_caches example_definitions)
            (example_world 0) [''pip'', ''node''] initial_state)))"
  by (simp add: CacheManager_upload_def CacheManager_download_def cache_defs exec_defs
      example_defs Let_def)

text \<open>
  The chunk loop appends all chunks to the file and counts their bytes.
\<close>

lemma write_chunks_run:
  "write_chunks p data n s =
     (Inr (n + length (concat data)),
      if data = [] then s
      else s\<lparr>files := (files s)(p \<mapsto> (case files s p of None \<Rightarrow> [] | Some b \<Rightarrow> b) @ concat data)\<rparr>)"
proof (induction data arbitrary: n s)
  case Nil
  then show ?case by (simp add: ret_def)
next
  case (Cons c cs)
  show ?case
    by (cases "cs = []") (simp_all add: Cons.IH bnd_def write_chunk_def ret_def)
qed

text \<open>
  Claim C10. For a defined cache name that is not ignored, \<^verbatim>\<open>_download_cache\<close> opens the
  local archive for writing before it calls \<^verbatim>\<open>get_archive\<close>. When the open is refused,
  the exception leaves with the files as they were and \<^verbatim>\<open>get_archive\<close> is never called.
  When the open succeeds, the archive is empty from then on: if \<^verbatim>\<open>get_archive\<close> raises,
  the exception leaves with the local archive empty, and if the stream breaks after some
  chunks, it leaves with the local archive holding just those chunks. So whenever
  \<^verbatim>\<open>get_archive\<close> or its stream fails, the archive that was there before is gone.
\<close>

theorem download_truncates_first:
  assumes "\<not> should_ignore cache_name"
    and "cache_definitions cache_name = Some c"
    and "w_expand_path w (path c) = Inr remote"
  shows "(w_open_write w (get_local_cache_archive_path w cache_name) = Some e \<longrightarrow>
           download_cache cache_definitions w cache_name s =
             (Inl e,
              s\<lparr>trace := trace s @ [ExpandPath (path c)]
                   @ (if remote = [] then [Log INFO ''Cache '%s': Ignoring'' [Str cache_name]] else [])
                   @ [Log INFO ''Cache '%s': Downloading'' [Str cache_name],
                      OpenWrite (get_local_cache_archive_path w cache_name)]\<rparr>))
       \<and> (w_open_write w (get_local_cache_archive_path w cache_name) = None
            \<and> w_get_archive w remote = Inl e \<longrightarrow>
           download_cache cache_definitions w cache_name s =
             (Inl e,
              s\<lparr>trace := trace s @ [ExpandPath (path c)]
                   @ (if remote = [] then [Log INFO ''Cache '%s': Ignoring'' [Str cache_name]] else [])
                   @ [Log INFO ''Cache '%s': Downloading'' [Str cache_name],
                      OpenWrite (get_local_cache_archive_path w cache_name),
                      GetArchive remote],
                 files := (files s)(get_local_cache_archive_path w cache_name \<mapsto> [])\<rparr>))
       \<and> (w_open_write w (get_local_cache_archive_path w cache_name) = None
            \<and> w_get_archive w remote = Inr (data, Some e) \<longrightarrow>
           download_cache cache_definitions w cache_name s =
             (Inl e,
              s\<lparr>trace := trace s @ [ExpandPath (path c)]
                   @ (if remote = [] then [Log INFO ''Cache '%s': Ignoring'' [Str cache_name]] else [])
                   @ [Log INFO ''Cache '%s': Downloading'' [Str cache_name],
                      OpenWrite (get_local_cache_archive_path w cache_name),
                      GetArchive remote],
                 files := (files s)(get_local_cache_archive_path w cache_name \<mapsto> concat data)\<rparr>))"
  using assms
  by (auto simp add: download_cache_def get_remote_directory_def open_wb_def
      exec_defs Let_def write_chunks_run)

text \<open>
  With an old archive at \<^verbatim>\<open>/cache/pip.tar\<close>: a failing \<^verbatim>\<open>get_archive\<close> leaves the file
  empty, a stream that breaks after the chunks \<^verbatim>\<open>ab\<close> and \<^verbatim>\<open>c\<close> leaves it with
  \<^verbatim>\<open>abc\<close>, and a refused open leaves the old archive in place.
\<close>

theorem download_truncates_first_witness:
  "fst (download_cache (defs_caches example_definitions)
          ((example_world 0)\<lparr>w_get_archive := (\<lambda>p. Inl (External ''connection lost''))\<rparr>) ''pip''
          (initial_state\<lparr>files := [''/cache/pip.tar'' \<mapsto> ''old archive'']\<rparr>))
     = Inl (External ''connection lost'')
   \<and> files (snd (download_cache (defs_caches example_definitions)
          ((example_world 0)\<lparr>w_get_archive := (\<lambda>p. Inl (External ''connection lost''))\<rparr>) ''pip''
          (initial_state\<lparr>files := [''/cache/pip.tar'' \<mapsto> ''old archive'']\<rparr>))) ''/cache/pip.tar''
     = Some []
   \<and> files (snd (download_cache (defs_caches example_definitions)
          ((example_world 0)\<lparr>w_get_archive :=
              (\<lambda>p. Inr ([''ab'', ''c''], Some (External ''connection lost'')))\<rparr>) ''pip''
          (initial_state\<lparr>files := [''/cache/pip.tar'' \<mapsto> ''old archive'']\<rparr>))) ''/cache/pip.tar''
     = Some ''abc''
   \<and> download_cache (defs_caches example_definitions)
          ((example_world 0)\<lparr>w_open_write := (\<lambda>p. Some (OSError p))\<rparr>) ''pip''
          (initial_state\<lparr>files := [''/cache/pip.tar'' \<mapsto> ''old archive'']\<rparr>)
     = (Inl (OSError ''/cache/pip.tar''),
        initial_state\<lparr>files := [''/cache/pip.tar'' \<mapsto> ''old archive''],
          trace := [ExpandPath ''/root/.cache/pip'',
                    Log INFO ''Cache '%s': Downloading'' [Str ''pip''],
                    OpenWrite ''/cache/pip.tar'']\<rparr>)"
proof -
  let ?lost = "(example_world 0)\<lparr>w_get_archive := (\<lambda>p. Inl (External ''connection lost''))\<rparr>"
  let ?cut = "(example_world 0)\<lparr>w_get_archive :=
              (\<lambda>p. Inr ([''ab'', ''c''], Some (External ''connection lost'')))\<rparr>"
  let ?refused = "(example_world 0)\<lparr>w_open_write := (\<lambda>p. Some (OSError p))\<rparr>"
  let ?s = "initial_state\<lparr>files := [''/cache/pip.tar'' \<mapsto> ''old archive'']\<rparr>"
  have n: "\<not> should_ignore ''pip''"
    by (simp add: should_ignore_def ignored_caches_def)
  have d: "defs_caches example_definitions ''pip'' = Some \<lparr>path = ''/root/.cache/pip''\<rparr>"
    by (simp add: example_defs)
  have x: "w_expand_path ?lost (path \<lparr>path = ''/root/.cache/pip''\<rparr>) = Inr ''/root/.cache/pip''"
    "w_expand_path ?cut (path \<lparr>path = ''/root/.cache/pip''\<rparr>) = Inr ''/root/.cache/pip''"
    "w_expand_path ?refused (path \<lparr>path = ''/root/.cache/pip''\<rparr>) = Inr ''/root/.cache/pip''"
    by (simp_all add: example_defs)
  have p: "get_local_cache_archive_path ?lost ''pip'' = ''/cache/pip.tar''"
    "get_local_cache_archive_path ?cut ''pip'' = ''/cache/pip.tar''"
    "get_local_cache_archive_path ?refused ''pip'' = ''/cache/pip.tar''"
    by (simp_all add: get_local_cache_archive_path_def path_join_def example_defs)
  have o: "w_open_write ?lost ''/cache/pip.tar'' = None" "w_get_archive ?lost ''/root/.cache/pip'' = Inl (External ''connection lost'')"
    "w_open_write ?cut ''/cache/pip.tar'' = None"
    "w_get_archive ?cut ''/root/.cache/pip'' = Inr ([''ab'', ''c''], Some (External ''connection lost''))"
    "w_open_write ?refused ''/cache/pip.tar'' = Some (OSError ''/cache/pip.tar'')"
    by (simp_all add: example_defs)
  from n d x(1) o(1,2)
    download_truncates_first [where cache_name = "''pip''"
      and cache_definitions = "defs_caches example_definitions"
      and c = "\<lparr>path = ''/root/.cache/pip''\<rparr>" and w = ?lost
      and remote = "''/root/.cache/pip''" and e = "External ''connection lost''" and s = ?s]
  have a: "fst (download_cache (defs_caches example_definitions) ?lost ''pip'' ?s)
             = Inl (External ''connection lost'')
         \<and> files (snd (download_cache (defs_caches example_definitions) ?lost ''pip'' ?s))
             ''/cache/pip.tar'' = Some []"
    by (simp add: p)
  from n d x(2) o(3,4)
    download_truncates_first [where cache_name = "''pip''"
      and cache_definitions = "defs_caches example_definitions"
      and c = "\<lparr>path = ''/root/.cache/pip''\<rparr>" and w = ?cut
      and remote = "''/root/.cache/pip''" and e = "External ''connection lost''"
      and data = "[''ab'', ''c'']" and s = ?s]
  have b: "files (snd (download_cache (defs_caches example_definitions) ?cut ''pip'' ?s))
             ''/cache/pip.tar'' = Some ''abc''"
    by (simp add: p)
  from n d x(3) o(5)
    download_truncates_first [where cache_name = "''pip''"
      and cache_definitions = "defs_caches example_definitions"
      and c = "\<lparr>path = ''/root/.cache/pip''\<rparr>" and w = ?refused
      and remote = "''/root/.cache/pip''" and e = "OSError ''/cache/pip.tar''" and s = ?s]
  have c: "download_cache (defs_caches example_definitions) ?refused ''pip'' ?s
     = (Inl (OSError ''/cache/pip.tar''),
        initial_state\<lparr>files := [''/cache/pip.tar'' \<mapsto> ''old archive''],
          trace := [ExpandPath ''/root/.cache/pip'',
                    Log INFO ''Cache '%s': Downloading'' [Str ''pip''],
                    OpenWrite ''/cache/pip.tar'']\<rparr>)"
    by (simp add: p initial_state_def)
  from a b c show ?thesis by simp
qed

subsection \<open>Release\<close>

text \<open>
  Claim C3, as amended. In the \<^verbatim>\<open>finally\<close> block of a runner that holds both a services
  manager and a container runner, the services are stopped first, exactly once. The
  container is stopped exactly once when stopping the services returned, and not at all
  when stopping the services raised. A failure of the container stop comes after the
  services stop and so never suppresses it.
\<close>

theorem release_order:
  assumes "services_manager s" and "container_runner s"
  shows "run_finally w s =
     (case w_stop_services w of
        Some e \<Rightarrow> (Inl e, s\<lparr>trace := trace s @ [StopServices]\<rparr>)
      | None \<Rightarrow>
         (case w_container_stop w of
            Some e \<Rightarrow> (Inl e, s\<lparr>trace := trace s @ [StopServices, ContainerStop]\<rparr>)
          | None \<Rightarrow> (Inr (), s\<lparr>trace := trace s @ [StopServices, ContainerStop]\<rparr>)))"
  using assms by (simp add: run_finally_def exec_defs split: option.splits)

text \<open>A container stop that raises: both stops have been attempted, once each.\<close>

theorem release_order_witness:
  "run_finally ((example_world 0)\<lparr>w_container_stop := Some (External ''no such container'')\<rparr>)
     (initial_state\<lparr>services_manager := True, container_runner := True\<rparr>)
   = (Inl (External ''no such container''),
      initial_state\<lparr>services_manager := True, container_runner := True,
        trace := [StopServices, ContainerStop]\<rparr>)"
  using release_order [of "initial_state\<lparr>services_manager := True, container_runner := True\<rparr>"
      "(example_world 0)\<lparr>w_container_stop := Some (External ''no such container'')\<rparr>"]
  by (simp add: example_defs)

text \<open>
  Claim C3 as stated fails: with both attributes set and a services stop that raises,
  the exception leaves the block and the container stop is never attempted.
\<close>

theorem release_suppressed_counterexample:
  "services_manager (initial_state\<lparr>services_manager := True, container_runner := True\<rparr>)
   \<and> container_runner (initial_state\<lparr>services_manager := True, container_runner := True\<rparr>)
   \<and> fst (run_finally ((example_world 0)\<lparr>w_stop_services := Some (External ''network busy'')\<rparr>)
        (initial_state\<lparr>services_manager := True, container_runner := True\<rparr>))
       = Inl (External ''network busy'')
   \<and> ContainerStop \<notin> set (trace (snd
        (run_finally ((example_world 0)\<lparr>w_stop_services := Some (External ''network busy'')\<rparr>)
          (initial_state\<lparr>services_manager := True, container_runner := True\<rparr>))))"
  by (simp add: run_finally_def exec_defs example_defs)

subsection \<open>Checkout errors\<close>

lemma nonzero_code_truthy: "result_code r \<noteq> 0 \<Longrightarrow> truthy_result r"
  by (cases r) simp_all

text \<open>
  Claim C5, as amended. When the container of a step has started, checkout is enabled
  and the clone command returns a non-zero exit code, or the clone passes and the reset
  command returns one, the run ends with an exception and with exactly the events
  listed: the setup stops at the failed command, so that neither the artifact and cache
  upload, nor the script and after-script, nor any part of the teardown (cache download
  and artifact download) takes place. Only the release runs before the exception leaves
  the step: the stop of the services is attempted, and the stop of the container is
  attempted when the stop of the services returns. The exception is the checkout error
  unless one of the two stops raises; then it is the exception of that stop.
\<close>

theorem checkout_error_skips_teardown:
  assumes "should_run cfg st"
    and "w_services_manager_init w = None" and "w_start_services w = None"
    and "w_get_services_names w = Inr services_names"
    and "w_container_runner_init w = None" and "w_container_start w = None"
    and "truthy_bool (should_clone w defs st)"
    and "w_run_command w (Argv (clone_cmd cfg defs w st)) = Inr r1"
    and "result_code r1 \<noteq> 0
         \<or> \<not> truthy_result r1 \<and> w_run_command w (Argv reset_cmd) = Inr r2 \<and> result_code r2 \<noteq> 0"
  shows "StepRunner_run cfg defs w pu su st s =
     (Inl (case w_stop_services w of
             Some e \<Rightarrow> e
           | None \<Rightarrow>
              (case w_container_stop w of
                 Some e \<Rightarrow> e
               | None \<Rightarrow>
                  Exception (if truthy_result r1 then ''Error cloning repository''
                             else ''Error resetting to HEAD commit''))),
      s\<lparr>services_manager := True, container_runner := True,
        trace := trace s @ acquire_events cfg defs w su st services_names
          @ [Log INFO (''Build setup: '%s'' @ apos) [Str (step_name st)],
             RunCommand (Argv (clone_cmd cfg defs w st))]
          @ (if truthy_result r1 then [] else [RunCommand (Argv reset_cmd)])
          @ [StopServices]
          @ (if w_stop_services w = None then [ContainerStop] else [])\<rparr>)"
proof (cases "truthy_result r1")
  case True
  with assms(1-8) show ?thesis
    by (simp add: StepRunner_run_def run_try_def run_finally_def try_finally_def build_setup_def
        clone_repository_def run_command_def set_services_manager_def set_container_runner_def
        acquire_events_def exec_defs Let_def split: option.splits)
next
  case False
  with assms(9) nonzero_code_truthy [of r1]
  have reset: "w_run_command w (Argv reset_cmd) = Inr r2" "truthy_result r2"
    by (auto intro: nonzero_code_truthy)
  with False assms(1-8) show ?thesis
    by (simp add: StepRunner_run_def run_try_def run_finally_def try_finally_def build_setup_def
        clone_repository_def run_command_def set_services_manager_def set_container_runner_def
        acquire_events_def exec_defs Let_def split: option.splits)
qed

text \<open>
  A clone that exits with 128: the events end with the clone command followed by the two
  stops, and the run raises the checkout error.
\<close>

theorem checkout_error_skips_teardown_witness:
  "StepRunner_run example_config example_definitions clone_fails 7 8 cloning_step initial_state =
     (Inl (Exception ''Error cloning repository''),
      initial_state\<lparr>services_manager := True, container_runner := True,
        trace := [Log INFO ''Running step: %s'' [Str ''build''],
                  Log DEBUG ''Step ID: %s'' [Uuid 8],
                  ServicesManagerNew [] [] 1 ''proj-step-build-data'',
                  StartServices,
                  GetServicesNames,
                  ContainerRunnerNew (Image ''alpine'') ''proj-step-build'' 1024 []
                    ''proj-step-build-data'',
                  ContainerStart,
                  Log INFO (''Build setup: '%s'' @ apos) [Str ''build''],
                  RunCommand (Argv [''git'', ''clone'', ''--branch'', ''main'', ''file:///ws'',
                    ''$BUILD_DIR'']),
                  StopServices,
                  ContainerStop]\<rparr>)"
proof -
  have "should_run example_config cloning_step"
    and "w_services_manager_init clone_fails = None" and "w_start_services clone_fails = None"
    and "w_get_services_names clone_fails = Inr []"
    and "w_container_runner_init clone_fails = None" and "w_container_start clone_fails = None"
    and "truthy_bool (should_clone clone_fails example_definitions cloning_step)"
    and "w_run_command clone_fails
           (Argv (clone_cmd example_config example_definitions clone_fails cloning_step))
         = Inr (RPair 128 ''fatal: not a repository'')"
    and "result_code (RPair 128 ''fatal: not a repository'') \<noteq> 0
         \<or> \<not> truthy_result (RPair 128 ''fatal: not a repository'')
           \<and> w_run_command clone_fails (Argv reset_cmd) = Inr (RCode 0) \<and> result_code (RCode 0) \<noteq> 0"
    by (simp_all add: should_run_def should_clone_def truthy_bool_def clone_fails_def
        cloning_step_def example_defs)
  from checkout_error_skips_teardown [OF this, of 7 8 initial_state]
  show ?thesis
    by (simp add: clone_cmd_def should_clone_lfs_def get_clone_depth_def truthy_bool_def
        truthy_int_def acquire_events_def get_image_def get_build_container_memory_limit_def
        clone_fails_def cloning_step_def example_defs)
qed

text \<open>
  Claim C5 as stated fails: the clone command is run and exits with 1, the run raises
  the checkout error, and the download of the declared artifact pattern is not among the
  events.
\<close>

theorem checkout_error_counterexample:
  "truthy_bool (should_clone ((example_world 0)\<lparr>w_run_command := (\<lambda>c. Inr (RCode 1))\<rparr>)
      example_definitions cloning_step)
   \<and> RunCommand (Argv (clone_cmd example_config example_definitions
        ((example_world 0)\<lparr>w_run_command := (\<lambda>c. Inr (RCode 1))\<rparr>) cloning_step))
      \<in> set (trace (snd (StepRunner_run example_config example_definitions
        ((example_world 0)\<lparr>w_run_command := (\<lambda>c. Inr (RCode 1))\<rparr>) 7 8 cloning_step
        initial_state)))
   \<and> fst (StepRunner_run example_config example_definitions
        ((example_world 0)\<lparr>w_run_command := (\<lambda>c. Inr (RCode 1))\<rparr>) 7 8 cloning_step
        initial_state) = Inl (Exception ''Error cloning repository'')
   \<and> ArtifactDownload 7 8 [''dist/**'']
      \<notin> set (trace (snd (StepRunner_run example_config example_definitions
        ((example_world 0)\<lparr>w_run_command := (\<lambda>c. Inr (RCode 1))\<rparr>) 7 8 cloning_step
        initial_state)))"
  by (simp add: step_defs exec_defs example_defs cloning_step_def clone_cmd_def
      should_clone_lfs_def get_clone_depth_def truthy_int_def Let_def)

subsection \<open>What a computation emits and keeps\<close>

named_theorems flow

lemma plain_work: "plain_event e \<Longrightarrow> work_event e"
  by (cases e) simp_all

lemma plain_ids_ok: "plain_event e \<Longrightarrow> ids_ok pu su e"
  by (cases e) (auto simp add: list_all_iff list_ex_iff)

lemma emits_mono: "emits P m \<Longrightarrow> (\<And>e. P e \<Longrightarrow> Q e) \<Longrightarrow> emits Q m"
  unfolding emits_def list_all_iff by blast

lemma emits_ret [flow]: "emits P (ret x)"
  by (simp add: emits_def ret_def)

lemma emits_raise [flow]: "emits P (raise e)"
  by (simp add: emits_def raise_def)

lemma emits_emit [flow]: "P ev \<Longrightarrow> emits P (emit ev)"
  by (simp add: emits_def emit_def)

lemma emits_bnd [flow]:
  assumes "emits P m" and "\<And>x. emits P (f x)"
  shows "emits P (bnd m f)"
  unfolding emits_def
proof
  fix s
  from assms(1) obtain evs where m: "trace (snd (m s)) = trace s @ evs" "list_all P evs"
    unfolding emits_def by blast
  show "\<exists>evs. trace (snd (bnd m f s)) = trace s @ evs \<and> list_all P evs"
  proof (cases "m s")
    case (Pair r s1)
    show ?thesis
    proof (cases r)
      case (Inl e)
      with Pair m show ?thesis by (auto simp add: bnd_def)
    next
      case (Inr x)
      from assms(2) obtain evs' where
        f: "trace (snd (f x s1)) = trace s1 @ evs'" "list_all P evs'"
        unfolding emits_def by blast
      with Pair Inr m have "trace (snd (bnd m f s)) = trace s @ (evs @ evs')"
        by (simp add: bnd_def)
      moreover from m f have "list_all P (evs @ evs')" by simp
      ultimately show ?thesis by blast
    qed
  qed
qed

lemma emits_log [flow]: "P (Log l fmt args) \<Longrightarrow> emits P (log l fmt args)"
  by (simp add: log_def emits_emit)

lemma emits_call [flow]: "P ev \<Longrightarrow> emits P (call ev outcome)"
  by (auto simp add: call_def intro!: flow split: option.splits)

lemma emits_call_val [flow]: "P ev \<Longrightarrow> emits P (call_val ev outcome)"
  by (auto simp add: call_val_def intro!: flow split: sum.splits)

lemma emits_foreach [flow]: "(\<And>x. emits P (f x)) \<Longrightarrow> emits P (foreach f xs)"
  by (induction xs) (auto intro!: flow)

lemma emits_try_finally [flow]:
  assumes "emits P body" and "emits P fin"
  shows "emits P (try_finally body fin)"
  unfolding emits_def
proof
  fix s
  from assms(1) obtain evs where b: "trace (snd (body s)) = trace s @ evs" "list_all P evs"
    unfolding emits_def by blast
  from assms(2) obtain evs' where
    f: "trace (snd (fin (snd (body s)))) = trace (snd (body s)) @ evs'" "list_all P evs'"
    unfolding emits_def by blast
  have "snd (try_finally body fin s) = snd (fin (snd (body s)))"
    by (simp add: try_finally_def split: prod.splits sum.splits)
  with b f have "trace (snd (try_finally body fin s)) = trace s @ (evs @ evs')
      \<and> list_all P (evs @ evs')"
    by simp
  then show "\<exists>evs. trace (snd (try_finally body fin s)) = trace s @ evs \<and> list_all P evs"
    by blast
qed

lemma emits_silent:
  "(\<And>s. trace (snd (m s)) = trace s) \<Longrightarrow> emits P m"
  by (simp add: emits_def)

lemma emits_path_exists [flow]: "emits P (path_exists p)"
  by (rule emits_silent) (simp add: path_exists_def)

lemma emits_getsize [flow]: "emits P (getsize p)"
  by (rule emits_silent) (simp add: getsize_def split: option.splits)

lemma emits_write_chunk [flow]: "emits P (write_chunk p c)"
  by (rule emits_silent) (simp add: write_chunk_def)

lemma emits_write_chunks [flow]: "emits P (write_chunks p data n)"
  by (induction data arbitrary: n) (auto intro!: flow)

lemma emits_unpack_result [flow]: "emits P (unpack_result r)"
  by (cases r) (auto intro!: flow)

lemma emits_set_services_manager [flow]: "emits P (set_services_manager b)"
  by (rule emits_silent) (simp add: set_services_manager_def)

lemma emits_set_container_runner [flow]: "emits P (set_container_runner b)"
  by (rule emits_silent) (simp add: set_container_runner_def)

lemma emits_next_world [flow]: "emits P (next_world W)"
  by (rule emits_silent) (simp add: next_world_def)

lemma emits_open_rb [flow]: "P (OpenRead p) \<Longrightarrow> emits P (open_rb w p)"
  unfolding open_rb_def
  by (rule emits_bnd, erule emits_emit, rule emits_silent) (simp split: option.splits)

lemma emits_open_wb [flow]: "P (OpenWrite p) \<Longrightarrow> emits P (open_wb w p)"
  unfolding open_wb_def
  by (rule emits_bnd, erule emits_emit, rule emits_silent) (simp split: option.splits)

lemma emits_decode [flow]: "emits P (decode b)"
  by (auto simp add: decode_def intro!: flow)

lemma emits_get_remote_directory [flow]:
  "emits plain_event (get_remote_directory cd w n)"
  by (auto simp add: get_remote_directory_def intro!: flow split: option.splits)

lemma emits_upload_cache_quiet:
  "emits (\<lambda>e. plain_event e \<and> \<not> persist_event e) (upload_cache cd w n)"
  by (auto simp add: upload_cache_def get_remote_directory_def Let_def intro!: flow
      split: option.splits)

lemma emits_upload_cache: "emits plain_event (upload_cache cd w n)"
  by (rule emits_mono [OF emits_upload_cache_quiet]) simp

lemma emits_download_cache: "emits plain_event (download_cache cd w n)"
  by (auto simp add: download_cache_def Let_def intro!: flow split: option.splits)

lemma emits_clone_repository_quiet:
  "emits (\<lambda>e. plain_event e \<and> \<not> persist_event e) (clone_repository cfg defs w st)"
  by (auto simp add: clone_repository_def run_command_def intro!: flow)

lemma emits_clone_repository: "emits plain_event (clone_repository cfg defs w st)"
  by (rule emits_mono [OF emits_clone_repository_quiet]) simp

lemma insensitive_fields [simp]:
  "insensitive services_manager" "insensitive container_runner" "insensitive next_uuid"
  by (simp_all add: insensitive_def)

lemma keeps_ret [flow]: "keeps f (ret x)"
  by (simp add: keeps_def ret_def)

lemma keeps_raise [flow]: "keeps f (raise e)"
  by (simp add: keeps_def raise_def)

lemma keeps_emit [flow]: "insensitive f \<Longrightarrow> keeps f (emit ev)"
  by (simp add: keeps_def emit_def insensitive_def)

lemma keeps_bnd [flow]:
  assumes "keeps f m" and "\<And>x. keeps f (g x)"
  shows "keeps f (bnd m g)"
  unfolding keeps_def
proof
  fix s
  show "f (snd (bnd m g s)) = f s"
  proof (cases "m s")
    case (Pair r s1)
    with assms(1) have s1: "f s1 = f s"
      unfolding keeps_def by (metis snd_conv)
    show ?thesis
    proof (cases r)
      case (Inl e)
      with Pair s1 show ?thesis by (simp add: bnd_def)
    next
      case (Inr x)
      from assms(2) have "f (snd (g x s1)) = f s1"
        unfolding keeps_def by blast
      with Pair Inr s1 show ?thesis by (simp add: bnd_def)
    qed
  qed
qed

lemma keeps_log [flow]: "insensitive f \<Longrightarrow> keeps f (log l fmt args)"
  by (simp add: log_def keeps_emit)

lemma keeps_call [flow]: "insensitive f \<Longrightarrow> keeps f (call ev outcome)"
  by (auto simp add: call_def intro!: flow split: option.splits)

lemma keeps_call_val [flow]: "insensitive f \<Longrightarrow> keeps f (call_val ev outcome)"
  by (auto simp add: call_val_def intro!: flow split: sum.splits)

lemma keeps_foreach [flow]: "(\<And>x. keeps f (g x)) \<Longrightarrow> keeps f (foreach g xs)"
  by (induction xs) (auto intro!: flow)

lemma keeps_try_finally [flow]:
  assumes "keeps f body" and "keeps f fin"
  shows "keeps f (try_finally body fin)"
proof -
  have "snd (try_finally body fin s) = snd (fin (snd (body s)))" for s
    by (simp add: try_finally_def split: prod.splits sum.splits)
  with assms show ?thesis by (simp add: keeps_def)
qed

lemma keeps_path_exists [flow]: "keeps f (path_exists p)"
  by (simp add: keeps_def path_exists_def)

lemma keeps_getsize [flow]: "keeps f (getsize p)"
  by (simp add: keeps_def getsize_def split: option.splits)

lemma keeps_write_chunk [flow]: "insensitive f \<Longrightarrow> keeps f (write_chunk p c)"
  by (simp add: keeps_def write_chunk_def insensitive_def)

lemma keeps_write_chunks [flow]: "insensitive f \<Longrightarrow> keeps f (write_chunks p data n)"
  by (induction data arbitrary: n) (auto intro!: flow)

lemma keeps_unpack_result [flow]: "keeps f (unpack_result r)"
  by (cases r) (auto intro!: flow)

lemma keeps_next_world [flow]: "insensitive f \<Longrightarrow> keeps f (next_world W)"
  by (simp add: keeps_def next_world_def insensitive_def)

lemma keeps_open_rb [flow]: "insensitive f \<Longrightarrow> keeps f (open_rb w p)"
  unfolding open_rb_def
  by (rule keeps_bnd, erule keeps_emit) (simp add: keeps_def split: option.splits)

lemma keeps_open_wb [flow]: "insensitive f \<Longrightarrow> keeps f (open_wb w p)"
  unfolding open_wb_def
  by (rule keeps_bnd, erule keeps_emit) (simp add: keeps_def insensitive_def split: option.splits)

lemma keeps_decode [flow]: "keeps f (decode b)"
  by (auto simp add: decode_def intro!: flow)

lemma keeps_upload_cache: "insensitive f \<Longrightarrow> keeps f (upload_cache cd w n)"
  by (auto simp add: upload_cache_def get_remote_directory_def Let_def intro!: flow
      split: option.splits)

lemma keeps_download_cache: "insensitive f \<Longrightarrow> keeps f (download_cache cd w n)"
  by (auto simp add: download_cache_def get_remote_directory_def Let_def intro!: flow
      split: option.splits)

lemma keeps_clone_repository: "insensitive f \<Longrightarrow> keeps f (clone_repository cfg defs w st)"
  by (auto simp add: clone_repository_def run_command_def intro!: flow)

lemma keeps_run_after_start:
  "insensitive f \<Longrightarrow> keeps f (run_after_start cfg defs w pu su st)"
  by (auto simp add: run_after_start_def build_setup_def build_teardown_def run_script_def
      upload_artifacts_def upload_caches_def download_caches_def download_artifacts_def
      stop_services_def CacheManager_upload_def CacheManager_download_def
      intro!: flow keeps_upload_cache keeps_download_cache keeps_clone_repository)

lemma emits_run_after_start:
  assumes plain: "\<And>e. plain_event e \<Longrightarrow> P e"
    and up: "P (ArtifactUpload pu su)"
    and down: "\<And>g. P (ArtifactDownload pu su g)"
  shows "emits P (run_after_start cfg defs w pu su st)"
proof -
  note lift = emits_mono [OF _ plain]
  have log: "emits P (log l fmt args)" if "\<not> list_ex is_uuid args" for l fmt args
    using that by (auto intro!: flow plain)
  have script: "emits P (run_script w c env)" for c env
    by (auto simp add: run_script_def intro!: flow plain)
  have clone: "emits P (clone_repository cfg defs w st)"
    by (rule lift [OF emits_clone_repository])
  have upload: "emits P (upload_caches defs w st)"
    unfolding upload_caches_def CacheManager_upload_def
    by (rule emits_foreach) (rule lift [OF emits_upload_cache])
  have download: "emits P (download_caches defs w st rc)" for rc
    unfolding download_caches_def CacheManager_download_def
    by (auto intro!: emits_foreach lift [OF emits_download_cache] log)
  have before: "emits P (build_setup cfg defs w pu su st)"
    unfolding build_setup_def upload_artifacts_def
    by (intro emits_bnd emits_call clone upload up log) simp_all
  have after: "emits P (build_teardown defs w pu su st rc)" for rc
    unfolding build_teardown_def download_artifacts_def stop_services_def
    by (intro emits_bnd emits_call emits_ret download down log) simp_all
  show ?thesis
    unfolding run_after_start_def
    by (auto intro!: emits_bnd emits_ret before script after log)
qed

lemma emits_if_state [flow]:
  "emits P a \<Longrightarrow> emits P b \<Longrightarrow> emits P (\<lambda>s. if c s then a s else b s)"
  by (simp add: emits_def)

lemma keeps_if_state [flow]:
  "keeps f a \<Longrightarrow> keeps f b \<Longrightarrow> keeps f (\<lambda>s. if c s then a s else b s)"
  by (simp add: keeps_def)

lemma run_try_alt:
  "run_try cfg defs w pu su st =
     (let image = get_image cfg defs st;
          container_name = project_slug cfg @ ''-step-'' @ w_slugify w (step_name st);
          data_volume_name = container_name @ ''-data'';
          mem_limit = get_build_container_memory_limit cfg st
      in
      bnd (call (ServicesManagerNew (step_services st) (defs_services defs) (step_size st)
                   data_volume_name) (w_services_manager_init w)) (\<lambda>_.
      bnd (set_services_manager True) (\<lambda>_.
      bnd (call StartServices (w_start_services w)) (\<lambda>_.
      bnd (call_val GetServicesNames (w_get_services_names w)) (\<lambda>services_names.
      bnd (call (ContainerRunnerNew image container_name mem_limit services_names
                   data_volume_name) (w_container_runner_init w)) (\<lambda>_.
      bnd (set_container_runner True) (\<lambda>_.
      bnd (call ContainerStart (w_container_start w)) (\<lambda>_.
      run_after_start cfg defs w pu su st))))))))"
  by (simp add: run_try_def run_after_start_def)

lemma emits_run_try:
  assumes "\<And>e. plain_event e \<Longrightarrow> P e" and "P (ArtifactUpload pu su)"
    and "\<And>g. P (ArtifactDownload pu su g)"
    and "\<And>a b c d. P (ServicesManagerNew a b c d)" and "P StartServices" and "P GetServicesNames"
    and "\<And>a b c d e. P (ContainerRunnerNew a b c d e)" and "P ContainerStart"
  shows "emits P (run_try cfg defs w pu su st)"
  unfolding run_try_alt Let_def
  by (intro emits_bnd emits_call emits_call_val emits_set_services_manager
      emits_set_container_runner emits_run_after_start assms)

lemma emits_run_finally:
  assumes "P StopServices" and "P ContainerStop"
  shows "emits P (run_finally w)"
  unfolding run_finally_def
  by (intro emits_bnd emits_if_state emits_call emits_ret assms)

lemma emits_ids_StepRunner_run: "emits (ids_ok pu su) (StepRunner_run cfg defs w pu su st)"
proof -
  have t: "emits (ids_ok pu su) (run_try cfg defs w pu su st)"
    by (rule emits_run_try) (simp_all add: plain_ids_ok)
  have f: "emits (ids_ok pu su) (run_finally w)"
    by (rule emits_run_finally) simp_all
  show ?thesis
    unfolding StepRunner_run_def
    by (auto intro!: emits_bnd emits_ret emits_log emits_set_services_manager
        emits_set_container_runner emits_try_finally t f)
qed

lemma keeps_uuid_StepRunner_run: "keeps next_uuid (StepRunner_run cfg defs w pu su st)"
proof -
  have s1: "keeps next_uuid (set_services_manager b)" for b
    by (simp add: keeps_def set_services_manager_def)
  have s2: "keeps next_uuid (set_container_runner b)" for b
    by (simp add: keeps_def set_container_runner_def)
  have t: "keeps next_uuid (run_try cfg defs w pu su st)"
    unfolding run_try_alt Let_def
    by (intro keeps_bnd keeps_call keeps_call_val s1 s2 keeps_run_after_start) simp_all
  have f: "keeps next_uuid (run_finally w)"
    unfolding run_finally_def
    by (intro keeps_bnd keeps_if_state keeps_call keeps_ret) simp_all
  show ?thesis
    unfolding StepRunner_run_def
    by (auto intro!: keeps_bnd keeps_ret keeps_log s1 s2 keeps_try_finally t f)
qed

lemma emits_ids_parallel_loop:
  "emits (ids_ok pu su) (parallel_loop cfg defs W pu su cs acc)"
  by (induction cs arbitrary: acc)
    (auto simp add: simple_run_def intro!: emits_bnd emits_ret emits_next_world
      emits_ids_StepRunner_run)

lemma keeps_uuid_parallel_loop:
  "keeps next_uuid (parallel_loop cfg defs W pu su cs acc)"
  by (induction cs arbitrary: acc)
    (auto simp add: simple_run_def intro!: keeps_bnd keeps_ret keeps_next_world
      keeps_uuid_StepRunner_run)

subsection \<open>Identifiers of parallel children\<close>

text \<open>
  Claim C9, as amended. During the run of a parallel step no identifier is generated,
  and every event that carries identifiers carries the pipeline identifier and the step
  identifier of the parallel runner itself: each child logs and names its artifacts
  under the step identifier of the group, which all children share.
\<close>

theorem children_share_identifiers:
  assumes "ParallelStepRunner_run cfg defs W pu su p s = (r, s')"
  shows "next_uuid s' = next_uuid s
         \<and> (\<exists>evs. trace s' = trace s @ evs \<and> (\<forall>e\<in>set evs. ids_ok pu su e))"
proof -
  from assms have s': "s' = snd (parallel_loop cfg defs W pu su (pstep_steps p) 0 s)"
    by (simp add: ParallelStepRunner_run_def)
  from keeps_uuid_parallel_loop [of cfg defs W pu su "pstep_steps p" 0]
  have "next_uuid s' = next_uuid s"
    unfolding keeps_def s' by blast
  moreover from emits_ids_parallel_loop [of pu su cfg defs W "pstep_steps p" 0]
  have "\<exists>evs. trace s' = trace s @ evs \<and> (\<forall>e\<in>set evs. ids_ok pu su e)"
    unfolding emits_def s' list_all_iff by blast
  ultimately show ?thesis by blast
qed

text \<open>
  A parallel step with two children, run under pipeline identifier 7 and step identifier
  8: the counter of identifiers stays at 0 and every event carries 7 and 8.
\<close>

theorem children_share_identifiers_witness:
  "next_uuid (snd (ParallelStepRunner_run example_config example_definitions (failing_at 1 3) 7 8
      two_children initial_state)) = 0
   \<and> list_all (ids_ok 7 8) (trace (snd (ParallelStepRunner_run example_config example_definitions
      (failing_at 1 3) 7 8 two_children initial_state)))"
  using children_share_identifiers [OF surjective_pairing, of example_config example_definitions
      "failing_at 1 3" 7 8 two_children initial_state]
  by (simp add: initial_state_def list_all_iff)

text \<open>
  Claim C9 as stated fails: both children log the step identifier 8 and upload artifacts
  under it. It is the identifier of the parallel runner, and no other one was generated.
\<close>

theorem shared_step_identifier_counterexample:
  "count_list (trace (snd (ParallelStepRunner_run example_config example_definitions
      (failing_at 1 3) 7 8 two_children initial_state))) (Log DEBUG ''Step ID: %s'' [Uuid 8]) = 2
   \<and> count_list (trace (snd (ParallelStepRunner_run example_config example_definitions
      (failing_at 1 3) 7 8 two_children initial_state))) (ArtifactUpload 7 8) = 2
   \<and> next_uuid (snd (ParallelStepRunner_run example_config example_definitions
      (failing_at 1 3) 7 8 two_children initial_state)) = next_uuid initial_state"
  by (simp add: driver_defs step_defs exec_defs example_defs two_children_def Let_def)

subsection \<open>Guaranteed release\<close>

lemma work_event_list:
  "list_all work_event evs \<Longrightarrow>
     StartServices \<notin> set evs \<and> StopServices \<notin> set evs
     \<and> ContainerStart \<notin> set evs \<and> ContainerStop \<notin> set evs"
  by (auto simp add: list_all_iff)

lemma run_after_start_body:
  "\<exists>evs. trace (snd (run_after_start cfg defs w pu su st s)) = trace s @ evs
     \<and> StartServices \<notin> set evs \<and> StopServices \<notin> set evs
     \<and> ContainerStart \<notin> set evs \<and> ContainerStop \<notin> set evs"
proof -
  have "emits work_event (run_after_start cfg defs w pu su st)"
    by (rule emits_run_after_start) (simp_all add: plain_work)
  then obtain evs where "trace (snd (run_after_start cfg defs w pu su st s)) = trace s @ evs"
    and "list_all work_event evs"
    unfolding emits_def by blast
  then show ?thesis using work_event_list by blast
qed

lemma run_after_start_handles:
  "services_manager (snd (run_after_start cfg defs w pu su st s)) = services_manager s"
  "container_runner (snd (run_after_start cfg defs w pu su st s)) = container_runner s"
  using keeps_run_after_start [of services_manager cfg defs w pu su st]
    keeps_run_after_start [of container_runner cfg defs w pu su st]
  by (simp_all add: keeps_def)

lemma run_try_started:
  assumes "acquired w" and "w_get_services_names w = Inr names"
  shows "run_try cfg defs w pu su st s =
     run_after_start cfg defs w pu su st
       (s\<lparr>services_manager := True, container_runner := True,
          trace := trace s @ drop 2 (acquire_events cfg defs w su st names)\<rparr>)"
  using assms
  by (simp add: acquired_def run_try_alt acquire_events_def exec_defs set_services_manager_def
      set_container_runner_def Let_def)

lemma run_try_handles:
  assumes "\<not> services_manager s" and "\<not> container_runner s"
  shows "\<exists>body. trace (snd (run_try cfg defs w pu su st s)) = trace s @ body
     \<and> StopServices \<notin> set body \<and> ContainerStop \<notin> set body
     \<and> count_list body StartServices
         = (if services_manager (snd (run_try cfg defs w pu su st s)) then 1 else 0)
     \<and> count_list body ContainerStart
         = (if container_runner (snd (run_try cfg defs w pu su st s)) then 1 else 0)"
proof (cases "acquired w")
  case True
  then obtain names where names: "w_get_services_names w = Inr names"
    by (auto simp add: acquired_def split: sum.splits)
  let ?s5 = "s\<lparr>services_manager := True, container_runner := True,
          trace := trace s @ drop 2 (acquire_events cfg defs w su st names)\<rparr>"
  have run: "run_try cfg defs w pu su st s = run_after_start cfg defs w pu su st ?s5"
    by (rule run_try_started [OF True names])
  obtain evs where evs: "trace (snd (run_after_start cfg defs w pu su st ?s5)) = trace ?s5 @ evs"
    "StartServices \<notin> set evs" "StopServices \<notin> set evs"
    "ContainerStart \<notin> set evs" "ContainerStop \<notin> set evs"
    using run_after_start_body [of cfg defs w pu su st ?s5] by blast
  have flags: "services_manager (snd (run_try cfg defs w pu su st s))"
    "container_runner (snd (run_try cfg defs w pu su st s))"
    by (simp_all add: run run_after_start_handles)
  have "trace (snd (run_try cfg defs w pu su st s))
          = trace s @ (drop 2 (acquire_events cfg defs w su st names) @ evs)"
    by (simp add: run evs(1))
  moreover have "StopServices \<notin> set (drop 2 (acquire_events cfg defs w su st names) @ evs)"
    "ContainerStop \<notin> set (drop 2 (acquire_events cfg defs w su st names) @ evs)"
    "count_list (drop 2 (acquire_events cfg defs w su st names) @ evs) StartServices = 1"
    "count_list (drop 2 (acquire_events cfg defs w su st names) @ evs) ContainerStart = 1"
    using evs(2-5) by (simp_all add: acquire_events_def count_list_0_iff)
  ultimately show ?thesis using flags by force
next
  case False
  with assms show ?thesis
    by (auto simp add: acquired_def run_try_alt exec_defs set_services_manager_def
        set_container_runner_def Let_def split: option.splits sum.splits)
qed

lemma run_finally_stops:
  assumes "w_stop_services w = None"
  shows "run_finally w s =
     (if container_runner s
      then (case w_container_stop w of None \<Rightarrow> Inr () | Some e \<Rightarrow> Inl e) else Inr (),
      s\<lparr>trace := trace s @ (if services_manager s then [StopServices] else [])
           @ (if container_runner s then [ContainerStop] else [])\<rparr>)"
  using assms by (simp add: run_finally_def exec_defs split: option.splits)

text \<open>
  Claim C2, as amended. For a step that is not skipped and whose services stop without
  an exception, the events of the run split into a first part without any stop, and a
  last part without any start. The services and the container are each started at most
  once, in the first part, and each is stopped in the last part exactly as often as it
  was started. When the run ends with an exception, whatever raised it, the last part
  holds nothing but the stops: they are done before the exception leaves the step.
\<close>

theorem guaranteed_release:
  assumes "should_run cfg st" and "w_stop_services w = None"
    and "StepRunner_run cfg defs w pu su st s = (r, s')"
  shows "\<exists>body rel. trace s' = trace s @ body @ rel
      \<and> StopServices \<notin> set body \<and> ContainerStop \<notin> set body
      \<and> StartServices \<notin> set rel \<and> ContainerStart \<notin> set rel
      \<and> count_list body StartServices \<le> 1 \<and> count_list body ContainerStart \<le> 1
      \<and> count_list rel StopServices = count_list body StartServices
      \<and> count_list rel ContainerStop = count_list body ContainerStart
      \<and> (isl r \<longrightarrow> set rel \<subseteq> {StopServices, ContainerStop})"
proof -
  let ?logs = "[Log INFO ''Running step: %s'' [Str (step_name st)],
                Log DEBUG ''Step ID: %s'' [Uuid su]]"
  let ?s1 = "s\<lparr>services_manager := False, container_runner := False,
               trace := trace s @ ?logs\<rparr>"
  let ?t = "run_try cfg defs w pu su st ?s1"
  let ?s2 = "snd ?t"
  let ?stops = "(if services_manager ?s2 then [StopServices] else [])
           @ (if container_runner ?s2 then [ContainerStop] else [])"
  let ?done = "Log INFO ''Step '%s' executed in %.3fs with exit code: %s''"
  obtain body where body: "trace ?s2 = trace ?s1 @ body"
    "StopServices \<notin> set body" "ContainerStop \<notin> set body"
    "count_list body StartServices = (if services_manager ?s2 then 1 else 0)"
    "count_list body ContainerStart = (if container_runner ?s2 then 1 else 0)"
    using run_try_handles [of ?s1 cfg defs w pu su st] by auto
  have tf: "try_finally (run_try cfg defs w pu su st) (run_finally w) ?s1 =
      (case (if container_runner ?s2
             then (case w_container_stop w of None \<Rightarrow> Inr () | Some e \<Rightarrow> Inl e) else Inr ()) of
         Inl e \<Rightarrow> Inl e | Inr u \<Rightarrow> fst ?t,
       ?s2\<lparr>trace := trace ?s2 @ ?stops\<rparr>)"
    by (simp add: try_finally_def run_finally_stops [OF assms(2)] split: prod.splits sum.splits)
  have run: "StepRunner_run cfg defs w pu su st s =
      (case try_finally (run_try cfg defs w pu su st) (run_finally w) ?s1 of
         (Inl e, s3) \<Rightarrow> (Inl e, s3)
       | (Inr rc, s3) \<Rightarrow>
           (Inr (Some rc),
            s3\<lparr>trace := trace s3 @ [?done [Str (step_name st), Elapsed, Num rc]]\<rparr>))"
    using assms(1)
    by (simp add: StepRunner_run_def exec_defs set_services_manager_def set_container_runner_def
        split: prod.splits sum.splits)
  obtain tail where tail: "trace s' = trace ?s2 @ ?stops @ tail"
    "isl r \<longrightarrow> tail = []" "\<exists>rc. set tail \<subseteq> {?done [Str (step_name st), Elapsed, Num rc]}"
    using assms(3) unfolding run tf
    by (auto split: sum.splits if_splits option.splits)
  have "trace s' = trace s @ (?logs @ body) @ (?stops @ tail)"
    using tail(1) body(1) by simp
  moreover have "StopServices \<notin> set (?logs @ body)" "ContainerStop \<notin> set (?logs @ body)"
    using body(2,3) by simp_all
  moreover have "StartServices \<notin> set (?stops @ tail)" "ContainerStart \<notin> set (?stops @ tail)"
    using tail(3) by auto
  moreover have "count_list (?logs @ body) StartServices \<le> 1"
    "count_list (?logs @ body) ContainerStart \<le> 1"
    using body(4,5) by simp_all
  moreover have "count_list (?stops @ tail) StopServices = count_list (?logs @ body) StartServices"
    "count_list (?stops @ tail) ContainerStop = count_list (?logs @ body) ContainerStart"
    using body(4,5) tail(3) by (auto simp add: count_list_0_iff)
  moreover have "isl r \<longrightarrow> set (?stops @ tail) \<subseteq> {StopServices, ContainerStop}"
    using tail(2) by auto
  ultimately show ?thesis by blast
qed

text \<open>
  The scenario of the spec: the container and two services have started and running the
  script raises. The exception leaves the step after one stop of the services and one
  stop of the container.
\<close>

theorem guaranteed_release_witness:
  "fst (StepRunner_run example_config example_definitions crash_world 7 8 service_step
          initial_state) = Inl (External ''script crashed'')
   \<and> count_list (trace (snd (StepRunner_run example_config example_definitions crash_world 7 8
          service_step initial_state))) StopServices = 1
   \<and> count_list (trace (snd (StepRunner_run example_config example_definitions crash_world 7 8
          service_step initial_state))) ContainerStop = 1"
proof -
  define run where
    "run = StepRunner_run example_config example_definitions crash_world 7 8 service_step
             initial_state"
  have selected: "should_run example_config service_step"
    by (simp add: should_run_def example_defs)
  have stop: "w_stop_services crash_world = None"
    by (simp add: crash_world_def example_defs)
  have crash: "fst run = Inl (External ''script crashed'')"
    unfolding run_def
    by (simp add: step_defs exec_defs example_defs crash_world_def service_step_def Let_def)
  have starts: "count_list (trace (snd run)) StartServices = 1"
    "count_list (trace (snd run)) ContainerStart = 1"
    unfolding run_def
    by (simp_all add: step_defs exec_defs example_defs crash_world_def service_step_def Let_def)
  have pair: "StepRunner_run example_config example_definitions crash_world 7 8 service_step
             initial_state = (fst run, snd run)"
    by (simp add: run_def)
  have empty: "trace initial_state = []"
    by (simp add: initial_state_def)
  from guaranteed_release [OF selected stop pair]
  obtain body rel where split: "trace (snd run) = trace initial_state @ body @ rel"
    and body: "StopServices \<notin> set body" "ContainerStop \<notin> set body"
    and rel: "StartServices \<notin> set rel" "ContainerStart \<notin> set rel"
    and once: "count_list rel StopServices = count_list body StartServices"
      "count_list rel ContainerStop = count_list body ContainerStart"
    by blast
  from split empty have tr: "trace (snd run) = body @ rel"
    by simp
  from starts body rel once
  have "count_list (trace (snd run)) StopServices = 1"
    "count_list (trace (snd run)) ContainerStop = 1"
    unfolding tr by (simp_all add: count_list_0_iff)
  with crash show ?thesis
    unfolding run_def by simp
qed

text \<open>
  Claim C2 as stated fails: when the script raises and stopping the services raises
  too, the container has been started and is never stopped.
\<close>

theorem leaked_container_counterexample:
  "should_run example_config service_step
   \<and> fst (StepRunner_run example_config example_definitions
        (crash_world\<lparr>w_stop_services := Some (External ''network busy'')\<rparr>) 7 8 service_step
        initial_state) = Inl (External ''network busy'')
   \<and> ContainerStart \<in> set (trace (snd (StepRunner_run example_config example_definitions
        (crash_world\<lparr>w_stop_services := Some (External ''network busy'')\<rparr>) 7 8 service_step
        initial_state)))
   \<and> ContainerStop \<notin> set (trace (snd (StepRunner_run example_config example_definitions
        (crash_world\<lparr>w_stop_services := Some (External ''network busy'')\<rparr>) 7 8 service_step
        initial_state)))"
  by (simp add: step_defs exec_defs example_defs crash_world_def service_step_def Let_def)

subsection \<open>Cache persistence\<close>















lemma write_chunks_trace: "trace (snd (write_chunks p data k s)) = trace s"
  by (simp add: write_chunks_run)
















end
